theory Spec2Isabelle
  imports Main
begin

section \<open>Types\<close>

text \<open>
  Modelled from the spec: package \<open>types\<close> is not among the sources. The spec names
  pointer, struct, function and integer types, a void type, and the constructors for
  pointer and struct types. \<open>types.Type\<close> is the interface; \<open>*types.PointerType\<close>,
  \<open>*types.StructType\<close> and \<open>*types.FuncType\<close> are concrete types behind it, so a
  type assertion \<open>t.(*types.PointerType)\<close> is a case distinction on \<open>Pointer\<close>.

  A \<open>*types.FuncType\<close> is an object that the code shares: the signature of a function
  is reached through the field \<open>Sig\<close> and through the cached type of the function,
  which \<open>types.NewPointer(f.Sig)\<close> builds around the same pointer. So a function type
  is the address of its object (\<open>SigRef\<close>), the objects live in a store (\<open>SigStore\<close>),
  and a change made to a signature in place is an update of the store. No code here
  changes a type of another kind in place; those are values.
\<close>

type_synonym SigRef = nat

datatype Type = Void | Label | IntType nat
  | Pointer PointerType | Struct StructType | Func SigRef
and PointerType = PointerType (ElemType: Type) (AddrSpace: nat)
and StructType = StructType (Fields: "Type list")

datatype FuncType = FuncType (RetType: Type) (ParamTypes: "Type list") (Variadic: bool)

type_synonym SigStore = "SigRef \<Rightarrow> FuncType"

text \<open>Modelled from the spec: \<open>types.NewPointer\<close>, with the default address space.\<close>

definition NewPointer :: "Type \<Rightarrow> PointerType" where
  "NewPointer elem = PointerType elem 0"

text \<open>Modelled from the spec: \<open>types.NewStruct\<close>, a struct type of the given fields.\<close>

definition NewStruct :: "Type list \<Rightarrow> StructType" where
  "NewStruct fields = StructType fields"

text \<open>Modelled from the spec: \<open>types.I1\<close>, the single-bit integer type.\<close>

definition I1 :: Type where
  "I1 = IntType 1"

section \<open>Memory instructions\<close>

text \<open>
  Operands have the interface type \<open>value.Value\<close>, declared outside the sources. The
  model takes the operand type as the type variable \<open>'v\<close> and the interface's method
  \<open>Type()\<close> as a function \<open>value_Type\<close>, passed to every accessor that calls it.
  A call either panics (\<open>Inl\<close>) or returns the type together with the operand as the
  call leaves it (an operand that is itself an instruction fills its own cache).
  An instruction refers to its operand; the model holds the operand in the field and
  writes it back after a call. Required operands are present (not nil).

  The enumerations of package \<open>enum\<close> are integer types in Go; only their values are
  stored here.
\<close>

type_synonym AtomicOrdering = nat
type_synonym AtomicOp = nat

text \<open>
  The panics. Those of the accessors carry the type that the message prints the Go
  type name of (\<open>%T\<close>); the third is the panic of \<open>NewFunction\<close>.
\<close>

datatype Fault = InvalidSourceType Type | InvalidDestinationType Type | NotYetImplemented

record 'v InstAlloca =
  LocalName :: string
  ElemType :: Type
  NElems :: "'v option"
  Typ :: "PointerType option"
  InAlloca :: bool
  SwiftError :: bool
  Alignment :: int

record 'v InstLoad =
  LocalName :: string
  Src :: 'v
  Typ :: "Type option"
  Atomic :: bool
  Volatile :: bool
  SyncScope :: string
  Ordering :: AtomicOrdering
  Alignment :: int

record 'v InstStore =
  Src :: 'v
  Dst :: 'v
  Atomic :: bool
  Volatile :: bool
  SyncScope :: string
  Ordering :: AtomicOrdering
  Alignment :: int

record InstFence =
  Ordering :: AtomicOrdering
  SyncScope :: string

record 'v InstCmpXchg =
  LocalName :: string
  Ptr :: 'v
  Cmp :: 'v
  New :: 'v
  Success :: AtomicOrdering
  Failure :: AtomicOrdering
  Typ :: "StructType option"
  Weak :: bool
  Volatile :: bool
  SyncScope :: string

record 'v InstAtomicRMW =
  LocalName :: string
  Op :: AtomicOp
  Dst :: 'v
  X :: 'v
  Ordering :: AtomicOrdering
  Typ :: "Type option"
  Volatile :: bool
  SyncScope :: string

record 'v InstGetElementPtr =
  LocalName :: string
  ElemType :: Type
  Src :: 'v
  Indices :: "'v list"
  Typ :: "Type option"
  InBounds :: bool

subsection \<open>Constructors\<close>

definition NewAlloca :: "Type \<Rightarrow> 'v InstAlloca" where
  "NewAlloca elemType =
     \<lparr>InstAlloca.LocalName = [], ElemType = elemType, NElems = None, Typ = None,
      InAlloca = False, SwiftError = False, Alignment = 0\<rparr>"

definition NewLoad :: "'v \<Rightarrow> 'v InstLoad" where
  "NewLoad src =
     \<lparr>InstLoad.LocalName = [], Src = src, Typ = None, Atomic = False, Volatile = False,
      SyncScope = [], Ordering = 0, Alignment = 0\<rparr>"

definition NewStore :: "'v \<Rightarrow> 'v \<Rightarrow> 'v InstStore" where
  "NewStore src dst =
     \<lparr>InstStore.Src = src, Dst = dst, Atomic = False, Volatile = False,
      SyncScope = [], Ordering = 0, Alignment = 0\<rparr>"

definition NewFence :: "AtomicOrdering \<Rightarrow> InstFence" where
  "NewFence ord = \<lparr>InstFence.Ordering = ord, SyncScope = []\<rparr>"

definition NewCmpXchg ::
  "'v \<Rightarrow> 'v \<Rightarrow> 'v \<Rightarrow> AtomicOrdering \<Rightarrow> AtomicOrdering \<Rightarrow> 'v InstCmpXchg" where
  "NewCmpXchg ptr cmp new success failure =
     \<lparr>InstCmpXchg.LocalName = [], Ptr = ptr, Cmp = cmp, New = new, Success = success,
      Failure = failure, Typ = None, Weak = False, Volatile = False, SyncScope = []\<rparr>"

definition NewAtomicRMW ::
  "AtomicOp \<Rightarrow> 'v \<Rightarrow> 'v \<Rightarrow> AtomicOrdering \<Rightarrow> 'v InstAtomicRMW" where
  "NewAtomicRMW aop dst x ord =
     \<lparr>InstAtomicRMW.LocalName = [], Op = aop, Dst = dst, X = x, Ordering = ord,
      Typ = None, Volatile = False, SyncScope = []\<rparr>"

definition NewGetElementPtr :: "Type \<Rightarrow> 'v \<Rightarrow> 'v list \<Rightarrow> 'v InstGetElementPtr" where
  "NewGetElementPtr elemType src indices =
     \<lparr>InstGetElementPtr.LocalName = [], ElemType = elemType, Src = src,
      Indices = indices, Typ = None, InBounds = False\<rparr>"

subsection \<open>Result types, cached on first access\<close>

text \<open>
  Every accessor returns the type and the instruction as the call leaves it: the cache
  field \<open>Typ\<close> is written when it was nil, and is returned as it stands otherwise.
\<close>

definition InstAlloca_Type :: "'v InstAlloca \<Rightarrow> Type \<times> 'v InstAlloca" where
  "InstAlloca_Type inst =
     (case InstAlloca.Typ inst of
        None \<Rightarrow>
          (let t = NewPointer (InstAlloca.ElemType inst)
           in (Pointer t, inst\<lparr>InstAlloca.Typ := Some t\<rparr>))
      | Some t \<Rightarrow> (Pointer t, inst))"

text \<open>
  The panic message of the load calls the operand's accessor a second time
  (\<open>got %T\<close> of \<open>inst.Src.Type()\<close>), so a panic of that second call is what escapes.
\<close>

definition InstLoad_Type ::
  "('v \<Rightarrow> Fault + Type \<times> 'v) \<Rightarrow> 'v InstLoad \<Rightarrow> Fault + Type \<times> 'v InstLoad" where
  "InstLoad_Type value_Type inst =
     (case InstLoad.Typ inst of
        Some t \<Rightarrow> Inr (t, inst)
      | None \<Rightarrow>
          (case value_Type (InstLoad.Src inst) of
             Inl e \<Rightarrow> Inl e
           | Inr (ty, src1) \<Rightarrow>
               (case ty of
                  Pointer t \<Rightarrow>
                    Inr (PointerType.ElemType t,
                         inst\<lparr>InstLoad.Src := src1,
                              InstLoad.Typ := Some (PointerType.ElemType t)\<rparr>)
                | _ \<Rightarrow>
                    (case value_Type src1 of
                       Inl e \<Rightarrow> Inl e
                     | Inr (ty2, src2) \<Rightarrow> Inl (InvalidSourceType ty2)))))"

definition InstCmpXchg_Type ::
  "('v \<Rightarrow> Fault + Type \<times> 'v) \<Rightarrow> 'v InstCmpXchg \<Rightarrow> Fault + Type \<times> 'v InstCmpXchg" where
  "InstCmpXchg_Type value_Type inst =
     (case InstCmpXchg.Typ inst of
        Some t \<Rightarrow> Inr (Struct t, inst)
      | None \<Rightarrow>
          (case value_Type (InstCmpXchg.New inst) of
             Inl e \<Rightarrow> Inl e
           | Inr (oldType, new1) \<Rightarrow>
               (let t = NewStruct [oldType, I1]
                in Inr (Struct t,
                        inst\<lparr>InstCmpXchg.New := new1, InstCmpXchg.Typ := Some t\<rparr>))))"

definition InstAtomicRMW_Type ::
  "('v \<Rightarrow> Fault + Type \<times> 'v) \<Rightarrow> 'v InstAtomicRMW \<Rightarrow> Fault + Type \<times> 'v InstAtomicRMW" where
  "InstAtomicRMW_Type value_Type inst =
     (case InstAtomicRMW.Typ inst of
        Some t \<Rightarrow> Inr (t, inst)
      | None \<Rightarrow>
          (case value_Type (InstAtomicRMW.Dst inst) of
             Inl e \<Rightarrow> Inl e
           | Inr (ty, dst1) \<Rightarrow>
               (case ty of
                  Pointer t \<Rightarrow>
                    Inr (PointerType.ElemType t,
                         inst\<lparr>InstAtomicRMW.Dst := dst1,
                              InstAtomicRMW.Typ := Some (PointerType.ElemType t)\<rparr>)
                | _ \<Rightarrow>
                    (case value_Type dst1 of
                       Inl e \<Rightarrow> Inl e
                     | Inr (ty2, dst2) \<Rightarrow> Inl (InvalidDestinationType ty2)))))"

definition InstGetElementPtr_Type ::
  "'v InstGetElementPtr \<Rightarrow> Type \<times> 'v InstGetElementPtr" where
  "InstGetElementPtr_Type inst =
     (case InstGetElementPtr.Typ inst of
        None \<Rightarrow>
          (let t = Pointer (NewPointer (InstGetElementPtr.ElemType inst))
           in (t, inst\<lparr>InstGetElementPtr.Typ := Some t\<rparr>))
      | Some t \<Rightarrow> (t, inst))"

text \<open>
  An operand that is a constant or a parameter: its accessor returns the type it
  stores and changes nothing. Used to run the accessors on concrete instructions.
\<close>

definition typed_value_Type :: "Type \<Rightarrow> Fault + Type \<times> Type" where
  "typed_value_Type v = Inr (v, v)"

subsection \<open>Names\<close>

text \<open>
  \<open>Name\<close> and \<open>SetName\<close> of the memory instructions that have a result: the bare
  name is the field \<open>LocalName\<close>.
\<close>

definition InstAlloca_Name :: "'v InstAlloca \<Rightarrow> string" where
  [simp]: "InstAlloca_Name inst = InstAlloca.LocalName inst"

definition InstAlloca_SetName :: "string \<Rightarrow> 'v InstAlloca \<Rightarrow> 'v InstAlloca" where
  [simp]: "InstAlloca_SetName name inst = inst\<lparr>InstAlloca.LocalName := name\<rparr>"

definition InstLoad_Name :: "'v InstLoad \<Rightarrow> string" where
  [simp]: "InstLoad_Name inst = InstLoad.LocalName inst"

definition InstLoad_SetName :: "string \<Rightarrow> 'v InstLoad \<Rightarrow> 'v InstLoad" where
  [simp]: "InstLoad_SetName name inst = inst\<lparr>InstLoad.LocalName := name\<rparr>"

definition InstCmpXchg_Name :: "'v InstCmpXchg \<Rightarrow> string" where
  [simp]: "InstCmpXchg_Name inst = InstCmpXchg.LocalName inst"

definition InstCmpXchg_SetName :: "string \<Rightarrow> 'v InstCmpXchg \<Rightarrow> 'v InstCmpXchg" where
  [simp]: "InstCmpXchg_SetName name inst = inst\<lparr>InstCmpXchg.LocalName := name\<rparr>"

definition InstAtomicRMW_Name :: "'v InstAtomicRMW \<Rightarrow> string" where
  [simp]: "InstAtomicRMW_Name inst = InstAtomicRMW.LocalName inst"

definition InstAtomicRMW_SetName :: "string \<Rightarrow> 'v InstAtomicRMW \<Rightarrow> 'v InstAtomicRMW" where
  [simp]: "InstAtomicRMW_SetName name inst = inst\<lparr>InstAtomicRMW.LocalName := name\<rparr>"

definition InstGetElementPtr_Name :: "'v InstGetElementPtr \<Rightarrow> string" where
  [simp]: "InstGetElementPtr_Name inst = InstGetElementPtr.LocalName inst"

definition InstGetElementPtr_SetName ::
  "string \<Rightarrow> 'v InstGetElementPtr \<Rightarrow> 'v InstGetElementPtr" where
  [simp]: "InstGetElementPtr_SetName name inst = inst\<lparr>InstGetElementPtr.LocalName := name\<rparr>"

section \<open>Functions, basic blocks and parameters\<close>

text \<open>
  Modelled from the spec: the declarations of \<open>Param\<close>, \<open>BasicBlock\<close>, \<open>InstCall\<close>,
  the terminators and the interface \<open>Instruction\<close> are not among the sources. A
  parameter is a named entity with a type. A call and an invoke are named entities
  whose result type may be void. A return has no result name. A basic block is a
  named entity that owns its instructions and one terminator (nil while the block is
  unfinished).
\<close>

record Param =
  LocalName :: string
  Typ :: Type

record InstCall =
  LocalName :: string
  Typ :: Type

record TermInvoke =
  LocalName :: string
  Typ :: Type

datatype 'v Terminator = Ret "'v option" | Invoke TermInvoke

datatype 'v Instruction =
    Alloca "'v InstAlloca"
  | Load "'v InstLoad"
  | Store "'v InstStore"
  | Fence InstFence
  | CmpXchg "'v InstCmpXchg"
  | AtomicRMW "'v InstAtomicRMW"
  | GetElementPtr "'v InstGetElementPtr"
  | Call InstCall

record 'v BasicBlock =
  LocalName :: string
  Insts :: "'v Instruction list"
  Term :: "'v Terminator option"

text \<open>
  The interface \<open>value.Named\<close> asks for \<open>Name\<close> and \<open>SetName\<close> (and the methods of
  \<open>value.Value\<close>). Among the memory instructions, store and fence have neither, so the
  type assertion \<open>inst.(value.Named)\<close> fails for them.
\<close>

fun Instruction_Named :: "'v Instruction \<Rightarrow> bool" where
  "Instruction_Named (Store _) = False"
| "Instruction_Named (Fence _) = False"
| "Instruction_Named _ = True"

fun Instruction_Name :: "'v Instruction \<Rightarrow> string" where
  "Instruction_Name (Alloca inst) = InstAlloca_Name inst"
| "Instruction_Name (Load inst) = InstLoad_Name inst"
| "Instruction_Name (CmpXchg inst) = InstCmpXchg_Name inst"
| "Instruction_Name (AtomicRMW inst) = InstAtomicRMW_Name inst"
| "Instruction_Name (GetElementPtr inst) = InstGetElementPtr_Name inst"
| "Instruction_Name (Call inst) = InstCall.LocalName inst"
| "Instruction_Name _ = []"

fun Instruction_SetName :: "string \<Rightarrow> 'v Instruction \<Rightarrow> 'v Instruction" where
  "Instruction_SetName name (Alloca inst) = Alloca (InstAlloca_SetName name inst)"
| "Instruction_SetName name (Load inst) = Load (InstLoad_SetName name inst)"
| "Instruction_SetName name (CmpXchg inst) = CmpXchg (InstCmpXchg_SetName name inst)"
| "Instruction_SetName name (AtomicRMW inst) = AtomicRMW (InstAtomicRMW_SetName name inst)"
| "Instruction_SetName name (GetElementPtr inst) =
     GetElementPtr (InstGetElementPtr_SetName name inst)"
| "Instruction_SetName name (Call inst) = Call (inst\<lparr>InstCall.LocalName := name\<rparr>)"
| "Instruction_SetName name inst = inst"

fun Terminator_Named :: "'v Terminator \<Rightarrow> bool" where
  "Terminator_Named (Invoke _) = True"
| "Terminator_Named _ = False"

fun Terminator_Name :: "'v Terminator \<Rightarrow> string" where
  "Terminator_Name (Invoke t) = TermInvoke.LocalName t"
| "Terminator_Name _ = []"

fun Terminator_SetName :: "string \<Rightarrow> 'v Terminator \<Rightarrow> 'v Terminator" where
  "Terminator_SetName name (Invoke t) = Invoke (t\<lparr>TermInvoke.LocalName := name\<rparr>)"
| "Terminator_SetName name t = t"

definition Param_SetName :: "string \<Rightarrow> Param \<Rightarrow> Param" where
  "Param_SetName name p = p\<lparr>Param.LocalName := name\<rparr>"

definition BasicBlock_SetName :: "string \<Rightarrow> 'v BasicBlock \<Rightarrow> 'v BasicBlock" where
  "BasicBlock_SetName name b = b\<lparr>BasicBlock.LocalName := name\<rparr>"

text \<open>
  Modelled from the spec: the linkage kinds of package \<open>enum\<close>, which is not among the
  sources. \<open>LinkageNone\<close> is the constant the code compares with; \<open>LinkageExternal\<close> and
  \<open>LinkageExternWeak\<close> are the external linkages; the others are the remaining linkage
  keywords of the assembly language.
\<close>

datatype Linkage =
    LinkageNone
  | LinkageAppending
  | LinkageAvailableExternally
  | LinkageCommon
  | LinkageInternal
  | LinkageLinkOnce
  | LinkageLinkOnceODR
  | LinkagePrivate
  | LinkageWeak
  | LinkageWeakODR
  | LinkageExternal
  | LinkageExternWeak

text \<open>
  The other enumerations of package \<open>enum\<close> are stored as their integer values; the
  constant for "not present" is the zero value.
\<close>

type_synonym Preemption = nat
type_synonym Visibility = nat
type_synonym DLLStorageClass = nat
type_synonym CallingConv = nat
type_synonym ReturnAttribute = nat
type_synonym UnnamedAddr = nat
type_synonym FuncAttribute = nat

definition PreemptionNone :: Preemption where "PreemptionNone = 0"
definition VisibilityNone :: Visibility where "VisibilityNone = 0"
definition DLLStorageClassNone :: DLLStorageClass where "DLLStorageClassNone = 0"
definition CallingConvNone :: CallingConv where "CallingConvNone = 0"
definition UnnamedAddrNone :: UnnamedAddr where "UnnamedAddrNone = 0"

text \<open>
  \<open>'c\<close> stands for the interface \<open>Constant\<close> and \<open>'d\<close> for the struct \<open>ComdatDef\<close>,
  both declared outside the sources; a nil constant or comdat is \<open>None\<close>. The field
  \<open>Sig\<close> is the pointer to the signature object.
\<close>

record ('v, 'c, 'd) Function =
  Sig :: SigRef
  GlobalName :: string
  Params :: "Param list"
  Blocks :: "'v BasicBlock list"
  Typ :: "PointerType option"
  Linkage :: Linkage
  Preemption :: Preemption
  Visibility :: Visibility
  DLLStorageClass :: DLLStorageClass
  CallingConv :: CallingConv
  ReturnAttrs :: "ReturnAttribute list"
  UnnamedAddr :: UnnamedAddr
  FuncAttrs :: "FuncAttribute list"
  Section :: string
  Comdat :: "'d option"
  GC :: string
  Prefix :: "'c option"
  Prologue :: "'c option"
  Personality :: "'c option"

text \<open>
  The functions of other packages that the code of a function calls: the identifier
  encoders of package \<open>enc\<close>, the \<open>String\<close> methods behind \<open>%v\<close>, and the \<open>Def\<close>
  methods of parameters and basic blocks. None is among the sources; all are taken as
  parameters.
\<close>

record ('v, 'c, 'd) Collab =
  enc_Global :: "string \<Rightarrow> string"
  enc_Local :: "string \<Rightarrow> string"
  enc_Quote :: "string \<Rightarrow> string"
  Linkage_String :: "Linkage \<Rightarrow> string"
  Preemption_String :: "Preemption \<Rightarrow> string"
  Visibility_String :: "Visibility \<Rightarrow> string"
  DLLStorageClass_String :: "DLLStorageClass \<Rightarrow> string"
  CallingConv_String :: "CallingConv \<Rightarrow> string"
  ReturnAttribute_String :: "ReturnAttribute \<Rightarrow> string"
  UnnamedAddr_String :: "UnnamedAddr \<Rightarrow> string"
  FuncAttribute_String :: "FuncAttribute \<Rightarrow> string"
  Type_String :: "Type \<Rightarrow> string"
  Param_Def :: "Param \<Rightarrow> string"
  BasicBlock_Def :: "'v BasicBlock \<Rightarrow> string"
  ComdatDef_String :: "'d \<Rightarrow> string"
  Constant_String :: "'c \<Rightarrow> string"

subsection \<open>The type of a function\<close>

text \<open>
  The cached type is a pointer type around the pointer \<open>f.Sig\<close> itself: it refers to
  the signature object, it does not copy it.
\<close>

definition Function_Type :: "('v, 'c, 'd) Function \<Rightarrow> Type \<times> ('v, 'c, 'd) Function" where
  "Function_Type f =
     (case Function.Typ f of
        None \<Rightarrow>
          (let t = NewPointer (Func (Sig f))
           in (Pointer t, f\<lparr>Function.Typ := Some t\<rparr>))
      | Some t \<Rightarrow> (Pointer t, f))"

text \<open>
  What a pointer-to-function type says about the function: the signature object its
  element points to, as the store holds it when the type is looked at.
\<close>

definition pointee_signature :: "SigStore \<Rightarrow> Type \<Rightarrow> FuncType option" where
  "pointee_signature S t =
     (case t of
        Pointer pt \<Rightarrow>
          (case PointerType.ElemType pt of Func a \<Rightarrow> Some (S a) | _ \<Rightarrow> None)
      | _ \<Rightarrow> None)"

subsection \<open>Identifiers and type-value pairs\<close>

text \<open>
  \<open>Ident\<close> encodes the bare name with the sigil of its scope; \<open>String\<close> is
  \<open>fmt.Sprintf("%v %v", x.Type(), x.Ident())\<close>, so it calls the type accessor first
  (filling the cache, or panicking as the accessor does).
\<close>

definition InstAlloca_Ident :: "('v, 'c, 'd) Collab \<Rightarrow> 'v InstAlloca \<Rightarrow> string" where
  "InstAlloca_Ident R inst = enc_Local R (InstAlloca.LocalName inst)"

definition InstLoad_Ident :: "('v, 'c, 'd) Collab \<Rightarrow> 'v InstLoad \<Rightarrow> string" where
  "InstLoad_Ident R inst = enc_Local R (InstLoad.LocalName inst)"

definition InstCmpXchg_Ident :: "('v, 'c, 'd) Collab \<Rightarrow> 'v InstCmpXchg \<Rightarrow> string" where
  "InstCmpXchg_Ident R inst = enc_Local R (InstCmpXchg.LocalName inst)"

definition InstAtomicRMW_Ident :: "('v, 'c, 'd) Collab \<Rightarrow> 'v InstAtomicRMW \<Rightarrow> string" where
  "InstAtomicRMW_Ident R inst = enc_Local R (InstAtomicRMW.LocalName inst)"

definition InstGetElementPtr_Ident ::
  "('v, 'c, 'd) Collab \<Rightarrow> 'v InstGetElementPtr \<Rightarrow> string" where
  "InstGetElementPtr_Ident R inst = enc_Local R (InstGetElementPtr.LocalName inst)"

definition InstAlloca_String ::
  "('v, 'c, 'd) Collab \<Rightarrow> 'v InstAlloca \<Rightarrow> string \<times> 'v InstAlloca" where
  "InstAlloca_String R inst =
     (case InstAlloca_Type inst of
        (t, inst1) \<Rightarrow> (Type_String R t @ '' '' @ InstAlloca_Ident R inst1, inst1))"

definition InstLoad_String ::
  "('v, 'c, 'd) Collab \<Rightarrow> ('v \<Rightarrow> Fault + Type \<times> 'v) \<Rightarrow> 'v InstLoad \<Rightarrow>
   Fault + string \<times> 'v InstLoad" where
  "InstLoad_String R value_Type inst =
     (case InstLoad_Type value_Type inst of
        Inl e \<Rightarrow> Inl e
      | Inr (t, inst1) \<Rightarrow> Inr (Type_String R t @ '' '' @ InstLoad_Ident R inst1, inst1))"

definition InstCmpXchg_String ::
  "('v, 'c, 'd) Collab \<Rightarrow> ('v \<Rightarrow> Fault + Type \<times> 'v) \<Rightarrow> 'v InstCmpXchg \<Rightarrow>
   Fault + string \<times> 'v InstCmpXchg" where
  "InstCmpXchg_String R value_Type inst =
     (case InstCmpXchg_Type value_Type inst of
        Inl e \<Rightarrow> Inl e
      | Inr (t, inst1) \<Rightarrow> Inr (Type_String R t @ '' '' @ InstCmpXchg_Ident R inst1, inst1))"

definition InstAtomicRMW_String ::
  "('v, 'c, 'd) Collab \<Rightarrow> ('v \<Rightarrow> Fault + Type \<times> 'v) \<Rightarrow> 'v InstAtomicRMW \<Rightarrow>
   Fault + string \<times> 'v InstAtomicRMW" where
  "InstAtomicRMW_String R value_Type inst =
     (case InstAtomicRMW_Type value_Type inst of
        Inl e \<Rightarrow> Inl e
      | Inr (t, inst1) \<Rightarrow> Inr (Type_String R t @ '' '' @ InstAtomicRMW_Ident R inst1, inst1))"

definition InstGetElementPtr_String ::
  "('v, 'c, 'd) Collab \<Rightarrow> 'v InstGetElementPtr \<Rightarrow> string \<times> 'v InstGetElementPtr" where
  "InstGetElementPtr_String R inst =
     (case InstGetElementPtr_Type inst of
        (t, inst1) \<Rightarrow> (Type_String R t @ '' '' @ InstGetElementPtr_Ident R inst1, inst1))"

definition Function_Ident :: "('v, 'c, 'd) Collab \<Rightarrow> ('v, 'c, 'd) Function \<Rightarrow> string" where
  "Function_Ident R f = enc_Global R (GlobalName f)"

definition Function_Name :: "('v, 'c, 'd) Function \<Rightarrow> string" where
  "Function_Name f = GlobalName f"

definition Function_SetName :: "string \<Rightarrow> ('v, 'c, 'd) Function \<Rightarrow> ('v, 'c, 'd) Function" where
  "Function_SetName name f = f\<lparr>GlobalName := name\<rparr>"

definition Function_String ::
  "('v, 'c, 'd) Collab \<Rightarrow> ('v, 'c, 'd) Function \<Rightarrow> string \<times> ('v, 'c, 'd) Function" where
  "Function_String R f =
     (case Function_Type f of
        (t, f1) \<Rightarrow> (Type_String R t @ '' '' @ Function_Ident R f1, f1))"

text \<open>\<open>NewFunction\<close> is not implemented in the source: every call panics.\<close>

definition NewFunction :: "string \<Rightarrow> Type \<Rightarrow> Param list \<Rightarrow> Fault + ('v, 'c, 'd) Function" where
  "NewFunction name retType params = Inl NotYetImplemented"

section \<open>Numbering of unnamed local identifiers\<close>

text \<open>
  \<open>strconv.Itoa\<close> on a counter that starts at 0 and only grows: the decimal digits,
  most significant first, no sign and no leading zero. The counter is a Go \<open>int\<close>; it
  counts entities held in memory, so it stays far below the 64-bit limit and is a
  natural number here.
\<close>

definition digit :: "nat \<Rightarrow> char" where
  "digit d = ''0123456789'' ! d"

function itoa :: "nat \<Rightarrow> string" where
  "itoa n = (if n < 10 then [digit n] else itoa (n div 10) @ [digit (n mod 10)])"
  by pat_completeness auto
termination
  by (relation "measure (\<lambda>n. n)") auto

text \<open>
  Modelled from the spec: the helpers \<open>isUnnamed\<close> and \<open>isLocalID\<close> are not among the
  sources. An entity is unnamed when its bare name is the empty string; a local ID
  is a bare decimal integer: at least one character, decimal digits only.
\<close>

definition isUnnamed :: "string \<Rightarrow> bool" where
  "isUnnamed name = (length name = 0)"

definition isLocalID :: "string \<Rightarrow> bool" where
  "isLocalID name = (name \<noteq> [] \<and> list_all (\<lambda>c. c \<in> set ''0123456789'') name)"

text \<open>
  The error of \<open>AssignIDs\<close>, with the three arguments of its message: the encoded
  function name, the expected and the actual local identifier. \<open>errors.WithStack\<close>
  adds a stack trace to the same error and is the identity here.
\<close>

datatype Error = InvalidLocalID string string string

text \<open>
  The closure \<open>setName\<close>. It captures the function name and the counter \<open>id\<close> (called
  \<open>ident\<close> here); the entity \<open>n\<close> is any \<open>value.Named\<close>, given with its methods \<open>Name\<close> and
  \<open>SetName\<close>. It returns the error, or the entity and the counter as it leaves them.
  The map \<open>names\<close> of the source is written here and never read; it is local to
  \<open>AssignIDs\<close> and dropped on return, so the model leaves it out.
\<close>

definition setName ::
  "('v, 'c, 'd) Collab \<Rightarrow> string \<Rightarrow> ('n \<Rightarrow> string) \<Rightarrow> (string \<Rightarrow> 'n \<Rightarrow> 'n) \<Rightarrow>
   nat \<Rightarrow> 'n \<Rightarrow> Error + 'n \<times> nat" where
  "setName R fname Name SetName ident n =
     (let got = Name n in
      if isUnnamed got then
        (let name = itoa ident in Inr (SetName name n, ident + 1))
      else if isLocalID got then
        (let want = itoa ident in
         if want \<noteq> got then
           Inl (InvalidLocalID (enc_Global R fname) (enc_Local R want) (enc_Local R got))
         else Inr (n, ident + 1))
      else Inr (n, ident))"

text \<open>
  \<open>isVoidValue\<close> switches on the dynamic type of a named value: a call instruction or
  an invoke terminator of void type is a non-value, everything else is a value. The
  argument is an instruction (\<open>Inl\<close>) or a terminator (\<open>Inr\<close>).
\<close>

fun isVoidValue :: "'v Instruction + 'v Terminator \<Rightarrow> bool" where
  "isVoidValue (Inl (Call inst)) = (InstCall.Typ inst = Void)"
| "isVoidValue (Inr (Invoke t)) = (TermInvoke.Typ t = Void)"
| "isVoidValue _ = False"

text \<open>
  The loops of \<open>AssignIDs\<close>. Each returns the error (if any), the entities as the loop
  leaves them, and the counter. A loop that returns an error keeps what it renamed
  before.
\<close>

fun assign_params ::
  "('v, 'c, 'd) Collab \<Rightarrow> string \<Rightarrow> nat \<Rightarrow> Param list \<Rightarrow> Error option \<times> Param list \<times> nat" where
  "assign_params R fname ident [] = (None, [], ident)"
| "assign_params R fname ident (param # rest) =
     (case setName R fname Param.LocalName Param_SetName ident param of
        Inl err \<Rightarrow> (Some err, param # rest, ident)
      | Inr (param1, ident1) \<Rightarrow>
          (case assign_params R fname ident1 rest of
             (err, rest1, ident2) \<Rightarrow> (err, param1 # rest1, ident2)))"

fun assign_insts ::
  "('v, 'c, 'd) Collab \<Rightarrow> string \<Rightarrow> nat \<Rightarrow> 'v Instruction list \<Rightarrow>
   Error option \<times> 'v Instruction list \<times> nat" where
  "assign_insts R fname ident [] = (None, [], ident)"
| "assign_insts R fname ident (inst # rest) =
     (if \<not> Instruction_Named inst then
        (case assign_insts R fname ident rest of
           (err, rest1, ident2) \<Rightarrow> (err, inst # rest1, ident2))
      else if isVoidValue (Inl inst) then
        (case assign_insts R fname ident rest of
           (err, rest1, ident2) \<Rightarrow> (err, inst # rest1, ident2))
      else
        (case setName R fname Instruction_Name Instruction_SetName ident inst of
           Inl err \<Rightarrow> (Some err, inst # rest, ident)
         | Inr (inst1, ident1) \<Rightarrow>
             (case assign_insts R fname ident1 rest of
                (err, rest1, ident2) \<Rightarrow> (err, inst1 # rest1, ident2))))"

definition assign_term ::
  "('v, 'c, 'd) Collab \<Rightarrow> string \<Rightarrow> nat \<Rightarrow> 'v Terminator option \<Rightarrow>
   Error option \<times> 'v Terminator option \<times> nat" where
  "assign_term R fname ident term =
     (case term of
        None \<Rightarrow> (None, term, ident)
      | Some n \<Rightarrow>
          if \<not> Terminator_Named n then (None, term, ident)
          else if isVoidValue (Inr n) then (None, term, ident)
          else
            (case setName R fname Terminator_Name Terminator_SetName ident n of
               Inl err \<Rightarrow> (Some err, term, ident)
             | Inr (n1, ident1) \<Rightarrow> (None, Some n1, ident1)))"

definition assign_block ::
  "('v, 'c, 'd) Collab \<Rightarrow> string \<Rightarrow> nat \<Rightarrow> 'v BasicBlock \<Rightarrow>
   Error option \<times> 'v BasicBlock \<times> nat" where
  "assign_block R fname ident block =
     (case setName R fname BasicBlock.LocalName BasicBlock_SetName ident block of
        Inl err \<Rightarrow> (Some err, block, ident)
      | Inr (block1, ident1) \<Rightarrow>
          (case assign_insts R fname ident1 (Insts block1) of
             (Some err, insts1, ident2) \<Rightarrow> (Some err, block1\<lparr>Insts := insts1\<rparr>, ident2)
           | (None, insts1, ident2) \<Rightarrow>
               (case assign_term R fname ident2 (Term block1) of
                  (err, term1, ident3) \<Rightarrow>
                    (err, block1\<lparr>Insts := insts1, Term := term1\<rparr>, ident3))))"

fun assign_blocks ::
  "('v, 'c, 'd) Collab \<Rightarrow> string \<Rightarrow> nat \<Rightarrow> 'v BasicBlock list \<Rightarrow>
   Error option \<times> 'v BasicBlock list \<times> nat" where
  "assign_blocks R fname ident [] = (None, [], ident)"
| "assign_blocks R fname ident (block # rest) =
     (case assign_block R fname ident block of
        (Some err, block1, ident1) \<Rightarrow> (Some err, block1 # rest, ident1)
      | (None, block1, ident1) \<Rightarrow>
          (case assign_blocks R fname ident1 rest of
             (err, rest1, ident2) \<Rightarrow> (err, block1 # rest1, ident2)))"

text \<open>
  \<open>AssignIDs\<close> returns the error (\<open>None\<close> for nil) and the function as the call leaves
  it: the entities are renamed in place, also when an error is returned.
\<close>

definition AssignIDs ::
  "('v, 'c, 'd) Collab \<Rightarrow> ('v, 'c, 'd) Function \<Rightarrow> Error option \<times> ('v, 'c, 'd) Function" where
  "AssignIDs R f =
     (if length (Blocks f) = 0 then (None, f)
      else
        (case assign_params R (GlobalName f) 0 (Params f) of
           (Some err, params1, ident1) \<Rightarrow> (Some err, f\<lparr>Params := params1\<rparr>)
         | (None, params1, ident1) \<Rightarrow>
             (case assign_blocks R (GlobalName f) ident1 (Blocks f) of
                (err, blocks1, ident2) \<Rightarrow> (err, f\<lparr>Params := params1, Blocks := blocks1\<rparr>))))"

section \<open>The numbering in the words of the spec\<close>

text \<open>
  The entities that the spec says are visited, by their names and in visiting order:
  the parameters in declaration order, then for each basic block in order the block
  itself, its instructions that are named values and not void, and its terminator if
  it is a named value and not void. Void is what \<open>isVoidValue\<close> decides: a call or an
  invoke whose type is void. The memory instructions with a result are values (their
  result is a pointer, a struct or the pointee of a pointer operand).
\<close>

definition visited_inst :: "'v Instruction \<Rightarrow> bool" where
  "visited_inst inst = (Instruction_Named inst \<and> \<not> isVoidValue (Inl inst))"

definition term_names :: "'v Terminator option \<Rightarrow> string list" where
  "term_names term =
     (case term of
        None \<Rightarrow> []
      | Some n \<Rightarrow> if Terminator_Named n \<and> \<not> isVoidValue (Inr n) then [Terminator_Name n] else [])"

definition block_names :: "'v BasicBlock \<Rightarrow> string list" where
  "block_names block =
     BasicBlock.LocalName block
       # map Instruction_Name (filter visited_inst (Insts block)) @ term_names (Term block)"

definition visit_names :: "('v, 'c, 'd) Function \<Rightarrow> string list" where
  "visit_names f = map Param.LocalName (Params f) @ concat (map block_names (Blocks f))"

text \<open>
  The same order written out by the kind of each entity, without the code's tests:
  an instruction with a result name (alloca, load, cmpxchg, atomicrmw, getelementptr,
  call) is in it unless it is a call whose type is void; a store and a fence are not;
  a terminator is in it when it is an invoke whose type is not void.
\<close>

fun result_name :: "'v Instruction \<Rightarrow> string option" where
  "result_name (Alloca inst) = Some (InstAlloca.LocalName inst)"
| "result_name (Load inst) = Some (InstLoad.LocalName inst)"
| "result_name (Store inst) = None"
| "result_name (Fence inst) = None"
| "result_name (CmpXchg inst) = Some (InstCmpXchg.LocalName inst)"
| "result_name (AtomicRMW inst) = Some (InstAtomicRMW.LocalName inst)"
| "result_name (GetElementPtr inst) = Some (InstGetElementPtr.LocalName inst)"
| "result_name (Call inst) =
     (if InstCall.Typ inst = Void then None else Some (InstCall.LocalName inst))"

fun terminator_result_name :: "'v Terminator option \<Rightarrow> string option" where
  "terminator_result_name None = None"
| "terminator_result_name (Some (Ret v)) = None"
| "terminator_result_name (Some (Invoke t)) =
     (if TermInvoke.Typ t = Void then None else Some (TermInvoke.LocalName t))"

definition block_order :: "'v BasicBlock \<Rightarrow> string list" where
  "block_order block =
     BasicBlock.LocalName block
       # List.map_filter result_name (Insts block)
       @ (case terminator_result_name (Term block) of None \<Rightarrow> [] | Some n \<Rightarrow> [n])"

definition visit_order :: "('v, 'c, 'd) Function \<Rightarrow> string list" where
  "visit_order f = map Param.LocalName (Params f) @ concat (map block_order (Blocks f))"

text \<open>
  The policy of the spec over the names of the visited entities, with the counter
  \<open>ident\<close>: an unnamed entity takes the counter as its name and the counter grows by
  one; a numeric name must be the counter (or the run fails there, changing nothing
  further) and the counter grows by one; any other name stays and the counter stays.
  The result is the error, the names after the run, and the counter.
\<close>

fun number ::
  "('v, 'c, 'd) Collab \<Rightarrow> string \<Rightarrow> nat \<Rightarrow> string list \<Rightarrow> Error option \<times> string list \<times> nat" where
  "number R fname ident [] = (None, [], ident)"
| "number R fname ident (got # rest) =
     (if got = [] then
        (case number R fname (ident + 1) rest of
           (err, rest1, k) \<Rightarrow> (err, itoa ident # rest1, k))
      else if isLocalID got then
        (if got = itoa ident then
           (case number R fname (ident + 1) rest of
              (err, rest1, k) \<Rightarrow> (err, got # rest1, k))
         else
           (Some (InvalidLocalID (enc_Global R fname) (enc_Local R (itoa ident)) (enc_Local R got)),
            got # rest, ident))
      else
        (case number R fname ident rest of
           (err, rest1, k) \<Rightarrow> (err, got # rest1, k)))"


text \<open>
  An entity counts when it is unnamed or carries a numeric name; \<open>counter_at names j\<close>
  is the counter that starts at 0 and has grown by one for each counting entity among
  the first \<open>j\<close>.
\<close>

definition counted :: "string \<Rightarrow> bool" where
  "counted name = (isUnnamed name \<or> isLocalID name)"

definition counter_at :: "string list \<Rightarrow> nat \<Rightarrow> nat" where
  "counter_at names j = length (filter counted (take j names))"


text \<open>
  \<open>renamed_only f f1\<close>: \<open>f1\<close> is \<open>f\<close> up to the names of the visited entities. Every
  parameter, block, visited instruction and visited terminator of \<open>f1\<close> is its
  counterpart in \<open>f\<close> with (at most) the name replaced; everything else is equal.
\<close>

definition param_renamed :: "Param \<Rightarrow> Param \<Rightarrow> bool" where
  "param_renamed p p1 = (p1 = Param_SetName (Param.LocalName p1) p)"

definition inst_renamed :: "'v Instruction \<Rightarrow> 'v Instruction \<Rightarrow> bool" where
  "inst_renamed inst inst1 =
     (if visited_inst inst then inst1 = Instruction_SetName (Instruction_Name inst1) inst
      else inst1 = inst)"

definition term_renamed :: "'v Terminator option \<Rightarrow> 'v Terminator option \<Rightarrow> bool" where
  "term_renamed tm tm1 =
     (case tm of
        None \<Rightarrow> tm1 = None
      | Some n \<Rightarrow>
          if Terminator_Named n \<and> \<not> isVoidValue (Inr n)
          then (case tm1 of None \<Rightarrow> False
                | Some n1 \<Rightarrow> n1 = Terminator_SetName (Terminator_Name n1) n)
          else tm1 = tm)"

definition block_renamed :: "'v BasicBlock \<Rightarrow> 'v BasicBlock \<Rightarrow> bool" where
  "block_renamed block block1 =
     (block1 = block\<lparr>BasicBlock.LocalName := BasicBlock.LocalName block1,
                     Insts := Insts block1, Term := Term block1\<rparr>
      \<and> list_all2 inst_renamed (Insts block) (Insts block1)
      \<and> term_renamed (Term block) (Term block1))"

definition renamed_only :: "('v, 'c, 'd) Function \<Rightarrow> ('v, 'c, 'd) Function \<Rightarrow> bool" where
  "renamed_only f f1 =
     (f1 = f\<lparr>Params := Params f1, Blocks := Blocks f1\<rparr>
      \<and> list_all2 param_renamed (Params f) (Params f1)
      \<and> list_all2 block_renamed (Blocks f) (Blocks f1))"


section \<open>Rendering a function\<close>

text \<open>
  The renderers read the signature of the function (\<open>hdr.Sig.RetType\<close>,
  \<open>hdr.Sig.Variadic\<close>) through the pointer \<open>Sig\<close>, in the store \<open>S\<close> of the state they
  are called in; the collaborators \<open>R\<close> are taken as they behave in that state.
  A \<open>strings.Builder\<close> is the text written so far; every write appends to it.
  \<open>fmt.Fprintf(buf, " %v", x)\<close> appends a space and the \<open>String\<close> of \<open>x\<close>.
\<close>

definition newline :: string where
  "newline = [CHR 0x0A]"

text \<open>
  \<open>headerString\<close>, in the order of the source: the specifiers up to the return type
  (\<open>header_attrs\<close>), the name and the parameter list (\<open>write_params\<close> is the loop over
  the parameters with its index), and what follows the closing parenthesis
  (\<open>header_tail\<close>).
\<close>

definition header_attrs ::
  "('v, 'c, 'd) Collab \<Rightarrow> SigStore \<Rightarrow> ('v, 'c, 'd) Function \<Rightarrow> string \<Rightarrow> string" where
  "header_attrs R S hdr buf0 =
     (let buf = (if Preemption hdr \<noteq> PreemptionNone
                 then buf0 @ '' '' @ Preemption_String R (Preemption hdr) else buf0);
          buf = (if Visibility hdr \<noteq> VisibilityNone
                 then buf @ '' '' @ Visibility_String R (Visibility hdr) else buf);
          buf = (if DLLStorageClass hdr \<noteq> DLLStorageClassNone
                 then buf @ '' '' @ DLLStorageClass_String R (DLLStorageClass hdr) else buf);
          buf = (if CallingConv hdr \<noteq> CallingConvNone
                 then buf @ '' '' @ CallingConv_String R (CallingConv hdr) else buf);
          buf = foldl (\<lambda>b attr. b @ '' '' @ ReturnAttribute_String R attr) buf (ReturnAttrs hdr)
      in buf @ '' '' @ Type_String R (RetType (S (Sig hdr))))"

fun write_params :: "('v, 'c, 'd) Collab \<Rightarrow> nat \<Rightarrow> Param list \<Rightarrow> string \<Rightarrow> string" where
  "write_params R i [] buf = buf"
| "write_params R i (param # rest) buf =
     write_params R (i + 1) rest
       ((if i \<noteq> 0 then buf @ '', '' else buf) @ Param_Def R param)"

definition header_tail :: "('v, 'c, 'd) Collab \<Rightarrow> ('v, 'c, 'd) Function \<Rightarrow> string \<Rightarrow> string" where
  "header_tail R hdr buf0 =
     (let buf = (if UnnamedAddr hdr \<noteq> UnnamedAddrNone
                 then buf0 @ '' '' @ UnnamedAddr_String R (UnnamedAddr hdr) else buf0);
          buf = foldl (\<lambda>b attr. b @ '' '' @ FuncAttribute_String R attr) buf (FuncAttrs hdr);
          buf = (if length (Section hdr) > 0
                 then buf @ '' section '' @ enc_Quote R (Section hdr) else buf);
          buf = (case Comdat hdr of
                   Some c \<Rightarrow> buf @ '' '' @ ComdatDef_String R c | None \<Rightarrow> buf);
          buf = (if length (GC hdr) > 0
                 then buf @ '' gc '' @ enc_Quote R (GC hdr) else buf);
          buf = (case Prefix hdr of
                   Some c \<Rightarrow> buf @ '' prefix '' @ Constant_String R c | None \<Rightarrow> buf);
          buf = (case Prologue hdr of
                   Some c \<Rightarrow> buf @ '' prologue '' @ Constant_String R c | None \<Rightarrow> buf)
      in (case Personality hdr of
            Some c \<Rightarrow> buf @ '' personality '' @ Constant_String R c | None \<Rightarrow> buf))"

definition headerString ::
  "('v, 'c, 'd) Collab \<Rightarrow> SigStore \<Rightarrow> ('v, 'c, 'd) Function \<Rightarrow> string" where
  "headerString R S hdr =
     (let buf = header_attrs R S hdr [];
          buf = buf @ '' '' @ enc_Global R (GlobalName hdr) @ ''('';
          buf = write_params R 0 (Params hdr) buf;
          buf = (if Variadic (S (Sig hdr))
                 then (if length (Params hdr) > 0 then buf @ '', '' else buf) @ ''...''
                 else buf);
          buf = buf @ '')''
      in header_tail R hdr buf)"

definition bodyString :: "('v, 'c, 'd) Collab \<Rightarrow> ('v, 'c, 'd) Function \<Rightarrow> string" where
  "bodyString R body =
     (let buf = ''{'' @ newline;
          buf = foldl (\<lambda>b block. b @ BasicBlock_Def R block @ newline) buf (Blocks body)
      in buf @ ''}'')"

definition Def ::
  "('v, 'c, 'd) Collab \<Rightarrow> SigStore \<Rightarrow> ('v, 'c, 'd) Function \<Rightarrow> string" where
  "Def R S f =
     (if length (Blocks f) = 0 then
        (let buf = ''declare'';
             buf = (if Linkage f \<noteq> LinkageNone
                    then buf @ '' '' @ Linkage_String R (Linkage f) else buf)
         in buf @ headerString R S f)
      else
        (let buf = ''define'';
             buf = (if Linkage f \<noteq> LinkageNone
                    then buf @ '' '' @ Linkage_String R (Linkage f) else buf);
             buf = buf @ headerString R S f
         in buf @ '' '' @ bodyString R f))"

text \<open>
  The texts \<open>xs\<close> with \<open>sep\<close> between each two neighbours (the spec's "separated
  by").
\<close>

fun join :: "string \<Rightarrow> string list \<Rightarrow> string" where
  "join sep [] = []"
| "join sep [x] = x"
| "join sep (x # y # ys) = x @ sep @ join sep (y # ys)"


subsection \<open>One instance of the collaborators\<close>

text \<open>
  Modelled from the spec: an instance of the functions taken as parameters, for
  running the code on concrete functions. Global identifiers carry the sigil \<open>@\<close>,
  local ones \<open>%\<close>; quoting wraps in double quotes; a linkage prints as its keyword;
  the other enumerations print as a number; a parameter prints as its type and its
  local identifier; a basic block prints as its name and a colon. Names that need
  escaping are outside this instance. Operands are known by their type
  (\<open>typed_value_Type\<close>); constants and comdats print as the text they hold.
\<close>

fun sample_Linkage_String :: "Linkage \<Rightarrow> string" where
  "sample_Linkage_String LinkageNone = ''none''"
| "sample_Linkage_String LinkageAppending = ''appending''"
| "sample_Linkage_String LinkageAvailableExternally = ''available_externally''"
| "sample_Linkage_String LinkageCommon = ''common''"
| "sample_Linkage_String LinkageInternal = ''internal''"
| "sample_Linkage_String LinkageLinkOnce = ''linkonce''"
| "sample_Linkage_String LinkageLinkOnceODR = ''linkonce_odr''"
| "sample_Linkage_String LinkagePrivate = ''private''"
| "sample_Linkage_String LinkageWeak = ''weak''"
| "sample_Linkage_String LinkageWeakODR = ''weak_odr''"
| "sample_Linkage_String LinkageExternal = ''external''"
| "sample_Linkage_String LinkageExternWeak = ''extern_weak''"

fun sample_Type_String :: "Type \<Rightarrow> string" where
  "sample_Type_String Void = ''void''"
| "sample_Type_String Label = ''label''"
| "sample_Type_String (IntType n) = CHR ''i'' # itoa n"
| "sample_Type_String (Pointer (PointerType elem _)) = sample_Type_String elem @ ''*''"
| "sample_Type_String (Struct t) = ''{...}''"
| "sample_Type_String (Func t) = ''func''"

definition sample :: "(Type, string, string) Collab" where
  "sample =
     \<lparr>enc_Global = (\<lambda>name. CHR ''@'' # name),
      enc_Local = (\<lambda>name. CHR ''%'' # name),
      enc_Quote = (\<lambda>s. [CHR 0x22] @ s @ [CHR 0x22]),
      Linkage_String = sample_Linkage_String,
      Preemption_String = itoa,
      Visibility_String = itoa,
      DLLStorageClass_String = itoa,
      CallingConv_String = itoa,
      ReturnAttribute_String = itoa,
      UnnamedAddr_String = itoa,
      FuncAttribute_String = itoa,
      Type_String = sample_Type_String,
      Param_Def = (\<lambda>p. sample_Type_String (Param.Typ p) @ '' %'' @ Param.LocalName p),
      BasicBlock_Def = (\<lambda>b. BasicBlock.LocalName b @ '':''),
      ComdatDef_String = (\<lambda>c. c),
      Constant_String = (\<lambda>c. c)\<rparr>"

subsection \<open>Example functions\<close>

text \<open>
  A store of signatures: \<open>void ()\<close> at address 0 (and wherever nothing else is),
  \<open>void (i32, i32)\<close> at 1, the variadic \<open>void (...)\<close> at 2 and \<open>void (i32, i32, ...)\<close>
  at 3.
\<close>

definition example_sigs :: SigStore where
  "example_sigs a =
     (if a = 1 then FuncType Void [IntType 32, IntType 32] False
      else if a = 2 then FuncType Void [] True
      else if a = 3 then FuncType Void [IntType 32, IntType 32] True
      else FuncType Void [] False)"

text \<open>
  The declaration \<open>declare void @f()\<close>: no parameters, no blocks, no attributes; its
  signature is the object at address 0.
\<close>

definition example_decl :: "(Type, string, string) Function" where
  "example_decl =
     \<lparr>Sig = 0, GlobalName = ''f'', Params = [], Blocks = [],
      Typ = None, Linkage = LinkageNone, Preemption = PreemptionNone,
      Visibility = VisibilityNone, DLLStorageClass = DLLStorageClassNone,
      CallingConv = CallingConvNone, ReturnAttrs = [], UnnamedAddr = UnnamedAddrNone,
      FuncAttrs = [], Section = [], Comdat = None, GC = [], Prefix = None,
      Prologue = None, Personality = None\<rparr>"

text \<open>
  The function of the spec's numbering example: parameters \<open>[unnamed, "x"]\<close> and one
  unnamed block holding an unnamed alloca, an unnamed load from an \<open>i32*\<close> operand and
  the terminator \<open>ret void\<close>.
\<close>

definition example_params :: "Param list" where
  "example_params =
     [\<lparr>Param.LocalName = [], Typ = IntType 32\<rparr>, \<lparr>Param.LocalName = ''x'', Typ = IntType 32\<rparr>]"

definition example_block :: "Type BasicBlock" where
  "example_block =
     \<lparr>BasicBlock.LocalName = [],
      Insts = [Alloca (NewAlloca (IntType 32)),
               Load (NewLoad (Pointer (PointerType (IntType 32) 0)))],
      Term = Some (Ret None)\<rparr>"

definition example_def :: "(Type, string, string) Function" where
  "example_def =
     example_decl
       \<lparr>Sig := 1,
        Params := example_params, Blocks := [example_block]\<rparr>"

text \<open>
  A block with a call of void type, a store, a fence, a call of type \<open>i32\<close> and an
  invoke of type \<open>i32\<close> as terminator; and an empty block that ends in an invoke of
  void type. All are unnamed.
\<close>

definition example_call_block :: "Type BasicBlock" where
  "example_call_block =
     \<lparr>BasicBlock.LocalName = [],
      Insts = [Call \<lparr>InstCall.LocalName = [], Typ = Void\<rparr>,
               Store (NewStore (IntType 32) (Pointer (PointerType (IntType 32) 0))),
               Fence (NewFence 0),
               Call \<lparr>InstCall.LocalName = [], Typ = IntType 32\<rparr>],
      Term = Some (Invoke \<lparr>TermInvoke.LocalName = [], Typ = IntType 32\<rparr>)\<rparr>"

definition example_void_invoke_block :: "Type BasicBlock" where
  "example_void_invoke_block =
     \<lparr>BasicBlock.LocalName = [], Insts = [],
      Term = Some (Invoke \<lparr>TermInvoke.LocalName = [], Typ = Void\<rparr>)\<rparr>"

text \<open>
  A block whose first instruction is an unnamed load through a pointer to void (its
  result type is void), followed by an unnamed alloca.
\<close>

definition example_void_load_block :: "Type BasicBlock" where
  "example_void_load_block =
     \<lparr>BasicBlock.LocalName = [],
      Insts = [Load (NewLoad (Pointer (PointerType Void 0))),
               Alloca (NewAlloca (IntType 32))],
      Term = Some (Ret None)\<rparr>"

text \<open>The block of the example with its load named beforehand.\<close>

definition example_block_load_named :: "string \<Rightarrow> Type BasicBlock" where
  "example_block_load_named name =
     example_block
       \<lparr>Insts := [Alloca (NewAlloca (IntType 32)),
                  Load ((NewLoad (Pointer (PointerType (IntType 32) 0)))
                          \<lparr>InstLoad.LocalName := name\<rparr>)]\<rparr>"


declare itoa.simps [simp del]

section \<open>Result types of the memory instructions\<close>

lemma InstLoad_Type_fresh:
  assumes "InstLoad.Typ inst = None"
    and "value_Type (InstLoad.Src inst) = Inr (Pointer p, src1)"
  shows "InstLoad_Type value_Type inst =
           Inr (PointerType.ElemType p,
                inst\<lparr>InstLoad.Src := src1, InstLoad.Typ := Some (PointerType.ElemType p)\<rparr>)"
  using assms by (simp add: InstLoad_Type_def)

lemma InstAtomicRMW_Type_fresh:
  assumes "InstAtomicRMW.Typ inst = None"
    and "value_Type (InstAtomicRMW.Dst inst) = Inr (Pointer p, dst1)"
  shows "InstAtomicRMW_Type value_Type inst =
           Inr (PointerType.ElemType p,
                inst\<lparr>InstAtomicRMW.Dst := dst1,
                     InstAtomicRMW.Typ := Some (PointerType.ElemType p)\<rparr>)"
  using assms by (simp add: InstAtomicRMW_Type_def)

lemma InstLoad_Type_not_pointer:
  assumes "InstLoad.Typ inst = None"
    and "value_Type (InstLoad.Src inst) = Inr (t, src1)"
    and "\<forall>p. t \<noteq> Pointer p"
  shows "InstLoad_Type value_Type inst =
           (case value_Type src1 of
              Inl e \<Rightarrow> Inl e
            | Inr (t2, src2) \<Rightarrow> Inl (InvalidSourceType t2))"
  using assms by (cases t) (simp_all add: InstLoad_Type_def)

lemma InstAtomicRMW_Type_not_pointer:
  assumes "InstAtomicRMW.Typ inst = None"
    and "value_Type (InstAtomicRMW.Dst inst) = Inr (t, dst1)"
    and "\<forall>p. t \<noteq> Pointer p"
  shows "InstAtomicRMW_Type value_Type inst =
           (case value_Type dst1 of
              Inl e \<Rightarrow> Inl e
            | Inr (t2, dst2) \<Rightarrow> Inl (InvalidDestinationType t2))"
  using assms by (cases t) (simp_all add: InstAtomicRMW_Type_def)

lemma InstLoad_Type_cached:
  "InstLoad.Typ inst = Some t \<Longrightarrow> InstLoad_Type value_Type inst = Inr (t, inst)"
  by (simp add: InstLoad_Type_def)

lemma InstAtomicRMW_Type_cached:
  "InstAtomicRMW.Typ inst = Some t \<Longrightarrow> InstAtomicRMW_Type value_Type inst = Inr (t, inst)"
  by (simp add: InstAtomicRMW_Type_def)

lemma InstCmpXchg_Type_cached:
  "InstCmpXchg.Typ inst = Some t \<Longrightarrow> InstCmpXchg_Type value_Type inst = Inr (Struct t, inst)"
  by (simp add: InstCmpXchg_Type_def)

lemma InstLoad_Type_sets_cache:
  "InstLoad_Type value_Type inst = Inr (t, inst1) \<Longrightarrow> InstLoad.Typ inst1 = Some t"
  by (auto simp: InstLoad_Type_def split: option.splits sum.splits Type.splits)

lemma InstAtomicRMW_Type_sets_cache:
  "InstAtomicRMW_Type value_Type inst = Inr (t, inst1) \<Longrightarrow> InstAtomicRMW.Typ inst1 = Some t"
  by (auto simp: InstAtomicRMW_Type_def split: option.splits sum.splits Type.splits)

lemma InstCmpXchg_Type_sets_cache:
  "InstCmpXchg_Type value_Type inst = Inr (t, inst1) \<Longrightarrow>
     \<exists>st. t = Struct st \<and> InstCmpXchg.Typ inst1 = Some st"
  by (auto simp: InstCmpXchg_Type_def Let_def split: option.splits sum.splits)

lemma InstAlloca_Type_sets_cache:
  "InstAlloca_Type inst = (t, inst1) \<Longrightarrow> \<exists>pt. t = Pointer pt \<and> InstAlloca.Typ inst1 = Some pt"
  by (auto simp: InstAlloca_Type_def Let_def split: option.splits)

lemma InstGetElementPtr_Type_sets_cache:
  "InstGetElementPtr_Type inst = (t, inst1) \<Longrightarrow> InstGetElementPtr.Typ inst1 = Some t"
  by (auto simp: InstGetElementPtr_Type_def Let_def split: option.splits)

lemma Function_Type_sets_cache:
  "Function_Type f = (t, f1) \<Longrightarrow> \<exists>pt. t = Pointer pt \<and> Function.Typ f1 = Some pt"
  by (auto simp: Function_Type_def Let_def split: option.splits)

text \<open>
  C4, as stated, fails: a load whose cache already holds a type returns that type,
  whatever its source operand is. Here the source has type \<open>i32*\<close> and the cache holds
  \<open>i64\<close> (as after a first access followed by a change of the operand); the accessor
  returns \<open>i64\<close>, not the pointee \<open>i32\<close>.
\<close>

theorem load_type_ignores_operand_when_cached:
  "typed_value_Type
     (InstLoad.Src ((NewLoad (Pointer (PointerType (IntType 32) 0)))
                      \<lparr>InstLoad.Typ := Some (IntType 64)\<rparr>))
   = Inr (Pointer (PointerType (IntType 32) 0), Pointer (PointerType (IntType 32) 0))
   \<and> InstLoad_Type typed_value_Type
     ((NewLoad (Pointer (PointerType (IntType 32) 0)))\<lparr>InstLoad.Typ := Some (IntType 64)\<rparr>)
   = Inr (IntType 64,
          (NewLoad (Pointer (PointerType (IntType 32) 0)))\<lparr>InstLoad.Typ := Some (IntType 64)\<rparr>)"
  by (simp add: InstLoad_Type_def NewLoad_def typed_value_Type_def)

text \<open>
  C4 (amended): for every load instruction whose result-type cache is not populated
  and whose source operand's type is a pointer type, the result-type accessor returns
  the pointee type of that pointer type (and caches it); likewise for every atomic
  read-modify-write instruction with an unpopulated cache whose destination operand's
  type is a pointer type.
\<close>

theorem uncached_load_and_atomicrmw_type_is_pointee:
  "(InstLoad.Typ ld = None \<and> value_Type (InstLoad.Src ld) = Inr (Pointer p, src1) \<longrightarrow>
      InstLoad_Type value_Type ld =
        Inr (PointerType.ElemType p,
             ld\<lparr>InstLoad.Src := src1, InstLoad.Typ := Some (PointerType.ElemType p)\<rparr>))
   \<and> (InstAtomicRMW.Typ rmw = None \<and> value_Type (InstAtomicRMW.Dst rmw) = Inr (Pointer q, dst1) \<longrightarrow>
      InstAtomicRMW_Type value_Type rmw =
        Inr (PointerType.ElemType q,
             rmw\<lparr>InstAtomicRMW.Dst := dst1,
                  InstAtomicRMW.Typ := Some (PointerType.ElemType q)\<rparr>))"
  by (simp add: InstLoad_Type_fresh InstAtomicRMW_Type_fresh)

theorem uncached_load_and_atomicrmw_type_is_pointee_witness:
  "InstLoad_Type typed_value_Type (NewLoad (Pointer (PointerType (IntType 32) 0)))
     = Inr (IntType 32,
            (NewLoad (Pointer (PointerType (IntType 32) 0)))\<lparr>InstLoad.Typ := Some (IntType 32)\<rparr>)
   \<and> InstAtomicRMW_Type typed_value_Type
        (NewAtomicRMW 0 (Pointer (PointerType (IntType 8) 0)) (IntType 8) 0)
     = Inr (IntType 8,
            (NewAtomicRMW 0 (Pointer (PointerType (IntType 8) 0)) (IntType 8) 0)
              \<lparr>InstAtomicRMW.Typ := Some (IntType 8)\<rparr>)"
  using uncached_load_and_atomicrmw_type_is_pointee
    [of "NewLoad (Pointer (PointerType (IntType 32) 0))" typed_value_Type
        "PointerType (IntType 32) 0" "Pointer (PointerType (IntType 32) 0)"
        "NewAtomicRMW 0 (Pointer (PointerType (IntType 8) 0)) (IntType 8) 0"
        "PointerType (IntType 8) 0" "Pointer (PointerType (IntType 8) 0)"]
  by (simp add: NewLoad_def NewAtomicRMW_def typed_value_Type_def)

text \<open>
  C5: for every load instruction with an unpopulated cache whose source operand's
  type is not a pointer type, the first call of the accessor panics instead of
  returning a type: the panic carries the type the operand reports when the message
  is built (or is the operand's own panic there). The same holds for an atomic
  read-modify-write instruction and its destination. When the operand's type is a
  pointer type, the accessor returns and does not panic.
\<close>

theorem type_of_non_pointer_operand_panics:
  "(InstLoad.Typ ld = None \<and> value_Type (InstLoad.Src ld) = Inr (t, src1) \<and> (\<forall>p. t \<noteq> Pointer p) \<longrightarrow>
      (\<exists>e. InstLoad_Type value_Type ld = Inl e) \<and>
      (\<forall>t2 src2. value_Type src1 = Inr (t2, src2) \<longrightarrow>
         InstLoad_Type value_Type ld = Inl (InvalidSourceType t2)))
   \<and> (InstAtomicRMW.Typ rmw = None \<and> value_Type (InstAtomicRMW.Dst rmw) = Inr (u, dst1)
        \<and> (\<forall>p. u \<noteq> Pointer p) \<longrightarrow>
      (\<exists>e. InstAtomicRMW_Type value_Type rmw = Inl e) \<and>
      (\<forall>u2 dst2. value_Type dst1 = Inr (u2, dst2) \<longrightarrow>
         InstAtomicRMW_Type value_Type rmw = Inl (InvalidDestinationType u2)))
   \<and> (InstLoad.Typ ld2 = None \<and> value_Type (InstLoad.Src ld2) = Inr (Pointer p1, src3) \<longrightarrow>
      (\<forall>e. InstLoad_Type value_Type ld2 \<noteq> Inl e))
   \<and> (InstAtomicRMW.Typ rmw2 = None \<and> value_Type (InstAtomicRMW.Dst rmw2) = Inr (Pointer p2, dst3) \<longrightarrow>
      (\<forall>e. InstAtomicRMW_Type value_Type rmw2 \<noteq> Inl e))"
proof (intro conjI impI)
  assume a: "InstLoad.Typ ld = None \<and> value_Type (InstLoad.Src ld) = Inr (t, src1) \<and> (\<forall>p. t \<noteq> Pointer p)"
  then have eq: "InstLoad_Type value_Type ld =
      (case value_Type src1 of Inl e \<Rightarrow> Inl e | Inr (t2, src2) \<Rightarrow> Inl (InvalidSourceType t2))"
    by (simp add: InstLoad_Type_not_pointer)
  show "\<exists>e. InstLoad_Type value_Type ld = Inl e"
    unfolding eq by (cases "value_Type src1") auto
  show "\<forall>t2 src2. value_Type src1 = Inr (t2, src2) \<longrightarrow>
         InstLoad_Type value_Type ld = Inl (InvalidSourceType t2)"
    unfolding eq by simp
next
  assume a: "InstAtomicRMW.Typ rmw = None \<and> value_Type (InstAtomicRMW.Dst rmw) = Inr (u, dst1)
        \<and> (\<forall>p. u \<noteq> Pointer p)"
  then have eq: "InstAtomicRMW_Type value_Type rmw =
      (case value_Type dst1 of Inl e \<Rightarrow> Inl e | Inr (t2, dst2) \<Rightarrow> Inl (InvalidDestinationType t2))"
    by (simp add: InstAtomicRMW_Type_not_pointer)
  show "\<exists>e. InstAtomicRMW_Type value_Type rmw = Inl e"
    unfolding eq by (cases "value_Type dst1") auto
  show "\<forall>u2 dst2. value_Type dst1 = Inr (u2, dst2) \<longrightarrow>
         InstAtomicRMW_Type value_Type rmw = Inl (InvalidDestinationType u2)"
    unfolding eq by simp
next
  assume "InstLoad.Typ ld2 = None \<and> value_Type (InstLoad.Src ld2) = Inr (Pointer p1, src3)"
  then show "\<forall>e. InstLoad_Type value_Type ld2 \<noteq> Inl e"
    by (simp add: InstLoad_Type_fresh)
next
  assume "InstAtomicRMW.Typ rmw2 = None \<and> value_Type (InstAtomicRMW.Dst rmw2) = Inr (Pointer p2, dst3)"
  then show "\<forall>e. InstAtomicRMW_Type value_Type rmw2 \<noteq> Inl e"
    by (simp add: InstAtomicRMW_Type_fresh)
qed

theorem type_of_non_pointer_operand_panics_witness:
  "InstLoad_Type typed_value_Type (NewLoad (IntType 32)) = Inl (InvalidSourceType (IntType 32))
   \<and> InstAtomicRMW_Type typed_value_Type (NewAtomicRMW 0 (IntType 8) (IntType 8) 0)
       = Inl (InvalidDestinationType (IntType 8))
   \<and> \<not> isl (InstLoad_Type typed_value_Type (NewLoad (Pointer (PointerType (IntType 32) 0))))
   \<and> \<not> isl (InstAtomicRMW_Type typed_value_Type
               (NewAtomicRMW 0 (Pointer (PointerType (IntType 8) 0)) (IntType 8) 0))"
  using type_of_non_pointer_operand_panics
    [where ld = "NewLoad (IntType 32)" and value_Type = typed_value_Type
       and t = "IntType 32" and ?src1.0 = "IntType 32"
       and rmw = "NewAtomicRMW 0 (IntType 8) (IntType 8) 0"
       and u = "IntType 8" and ?dst1.0 = "IntType 8"
       and ?ld2.0 = "NewLoad (Pointer (PointerType (IntType 32) 0))"
       and ?p1.0 = "PointerType (IntType 32) 0"
       and ?src3.0 = "Pointer (PointerType (IntType 32) 0)"
       and ?rmw2.0 = "NewAtomicRMW 0 (Pointer (PointerType (IntType 8) 0)) (IntType 8) 0"
       and ?p2.0 = "PointerType (IntType 8) 0"
       and ?dst3.0 = "Pointer (PointerType (IntType 8) 0)"]
  by (simp add: NewLoad_def NewAtomicRMW_def typed_value_Type_def isl_def)

section \<open>Compare-exchange result type\<close>

lemma InstCmpXchg_Type_fresh:
  assumes "InstCmpXchg.Typ inst = None" and "value_Type (InstCmpXchg.New inst) = Inr (T, new1)"
  shows "InstCmpXchg_Type value_Type inst =
           Inr (Struct (StructType [T, I1]),
                inst\<lparr>InstCmpXchg.New := new1, InstCmpXchg.Typ := Some (StructType [T, I1])\<rparr>)"
  using assms by (simp add: InstCmpXchg_Type_def NewStruct_def Let_def)

text \<open>
  C6, as stated, fails: a compare-exchange whose cache already holds a struct type
  returns that type, whatever its "new value" operand is. Here the new value has type
  \<open>i32\<close> and the cache holds \<open>{i64, i1}\<close>; the first field of the result is \<open>i64\<close>.
\<close>

theorem cmpxchg_type_ignores_operand_when_cached:
  "typed_value_Type
     (InstCmpXchg.New
        ((NewCmpXchg (Pointer (PointerType (IntType 32) 0)) (IntType 32) (IntType 32) 0 0)
           \<lparr>InstCmpXchg.Typ := Some (StructType [IntType 64, IntType 1])\<rparr>))
   = Inr (IntType 32, IntType 32)
   \<and> InstCmpXchg_Type typed_value_Type
     ((NewCmpXchg (Pointer (PointerType (IntType 32) 0)) (IntType 32) (IntType 32) 0 0)
        \<lparr>InstCmpXchg.Typ := Some (StructType [IntType 64, IntType 1])\<rparr>)
   = Inr (Struct (StructType [IntType 64, IntType 1]),
          (NewCmpXchg (Pointer (PointerType (IntType 32) 0)) (IntType 32) (IntType 32) 0 0)
             \<lparr>InstCmpXchg.Typ := Some (StructType [IntType 64, IntType 1])\<rparr>)"
  by (simp add: InstCmpXchg_Type_def NewCmpXchg_def typed_value_Type_def)

text \<open>
  C6 (amended): for every compare-exchange instruction whose result-type cache is not
  populated and whose "new value" operand has type \<open>T\<close>, the result-type accessor
  returns (and caches) the two-field struct type whose first field is \<open>T\<close> and whose
  second field is the single-bit type \<open>i1\<close>, whatever the address and compare operands
  are.
\<close>

theorem uncached_cmpxchg_type_is_struct_of_new_and_i1:
  "InstCmpXchg.Typ inst = None \<and> value_Type (InstCmpXchg.New inst) = Inr (T, new1) \<longrightarrow>
     InstCmpXchg_Type value_Type (inst\<lparr>InstCmpXchg.Ptr := ptr, InstCmpXchg.Cmp := cmp\<rparr>) =
       Inr (Struct (StructType [T, I1]),
            inst\<lparr>InstCmpXchg.Ptr := ptr, InstCmpXchg.Cmp := cmp, InstCmpXchg.New := new1,
                 InstCmpXchg.Typ := Some (StructType [T, I1])\<rparr>)
     \<and> I1 = IntType 1"
  by (simp add: InstCmpXchg_Type_fresh I1_def)

theorem uncached_cmpxchg_type_is_struct_of_new_and_i1_witness:
  "InstCmpXchg_Type typed_value_Type
     (NewCmpXchg (Pointer (PointerType (IntType 32) 0)) (IntType 32) (IntType 32) 0 0)
   = Inr (Struct (StructType [IntType 32, IntType 1]),
          (NewCmpXchg (Pointer (PointerType (IntType 32) 0)) (IntType 32) (IntType 32) 0 0)
             \<lparr>InstCmpXchg.Typ := Some (StructType [IntType 32, IntType 1])\<rparr>)"
  using uncached_cmpxchg_type_is_struct_of_new_and_i1
    [where inst = "NewCmpXchg (Pointer (PointerType (IntType 32) 0)) (IntType 32) (IntType 32) 0 0"
       and value_Type = typed_value_Type and T = "IntType 32" and ?new1.0 = "IntType 32"
       and ptr = "Pointer (PointerType (IntType 32) 0)" and cmp = "IntType 32"]
  by (simp add: NewCmpXchg_def typed_value_Type_def I1_def)

section \<open>Stability of the cached type\<close>

lemma Function_Type_stable:
  assumes "Function_Type f = (t, f1)" and "Function.Typ f2 = Function.Typ f1"
  shows "Function_Type f2 = (t, f2)"
proof -
  from assms(1) obtain pt where "t = Pointer pt" and "Function.Typ f1 = Some pt"
    using Function_Type_sets_cache by blast
  with assms(2) show ?thesis by (simp add: Function_Type_def)
qed

lemma InstAlloca_Type_stable:
  assumes "InstAlloca_Type inst = (t, inst1)" and "InstAlloca.Typ inst2 = InstAlloca.Typ inst1"
  shows "InstAlloca_Type inst2 = (t, inst2)"
proof -
  from assms(1) obtain pt where "t = Pointer pt" and "InstAlloca.Typ inst1 = Some pt"
    using InstAlloca_Type_sets_cache by blast
  with assms(2) show ?thesis by (simp add: InstAlloca_Type_def)
qed

lemma InstLoad_Type_stable:
  "InstLoad_Type value_Type inst = Inr (t, inst1) \<Longrightarrow> InstLoad.Typ inst2 = InstLoad.Typ inst1 \<Longrightarrow>
     InstLoad_Type vt2 inst2 = Inr (t, inst2)"
  by (auto simp: InstLoad_Type_cached dest: InstLoad_Type_sets_cache)

lemma InstCmpXchg_Type_stable:
  "InstCmpXchg_Type value_Type inst = Inr (t, inst1) \<Longrightarrow>
     InstCmpXchg.Typ inst2 = InstCmpXchg.Typ inst1 \<Longrightarrow>
     InstCmpXchg_Type vt2 inst2 = Inr (t, inst2)"
  by (auto simp: InstCmpXchg_Type_cached dest: InstCmpXchg_Type_sets_cache)

lemma InstAtomicRMW_Type_stable:
  "InstAtomicRMW_Type value_Type inst = Inr (t, inst1) \<Longrightarrow>
     InstAtomicRMW.Typ inst2 = InstAtomicRMW.Typ inst1 \<Longrightarrow>
     InstAtomicRMW_Type vt2 inst2 = Inr (t, inst2)"
  by (auto simp: InstAtomicRMW_Type_cached dest: InstAtomicRMW_Type_sets_cache)

lemma InstGetElementPtr_Type_stable:
  assumes "InstGetElementPtr_Type inst = (t, inst1)"
    and "InstGetElementPtr.Typ inst2 = InstGetElementPtr.Typ inst1"
  shows "InstGetElementPtr_Type inst2 = (t, inst2)"
proof -
  from assms(1) have "InstGetElementPtr.Typ inst1 = Some t"
    by (rule InstGetElementPtr_Type_sets_cache)
  with assms(2) show ?thesis by (simp add: InstGetElementPtr_Type_def)
qed

lemma Function_Type_fresh:
  "Function.Typ f = None \<Longrightarrow>
     Function_Type f =
       (Pointer (PointerType (Func (Sig f)) 0),
        f\<lparr>Function.Typ := Some (PointerType (Func (Sig f)) 0)\<rparr>)"
  by (simp add: Function_Type_def NewPointer_def Let_def)

text \<open>
  C9, as stated, fails for the signature: the cached type of a function points to the
  signature object and does not copy it. Here the first access returns the pointer
  type around the object at address 0, which is \<open>void ()\<close>; the signature is then made
  variadic in place (the store changes at address 0, nothing in the function does);
  the second access returns the same type, and what it says about the function is
  now \<open>void (...)\<close>.
\<close>

theorem function_type_follows_signature_changed_in_place:
  "Sig example_decl = 0
   \<and> Function_Type example_decl =
       (Pointer (PointerType (Func 0) 0),
        example_decl\<lparr>Function.Typ := Some (PointerType (Func 0) 0)\<rparr>)
   \<and> pointee_signature example_sigs (Pointer (PointerType (Func 0) 0))
       = Some (FuncType Void [] False)
   \<and> Function_Type (example_decl\<lparr>Function.Typ := Some (PointerType (Func 0) 0)\<rparr>) =
       (Pointer (PointerType (Func 0) 0),
        example_decl\<lparr>Function.Typ := Some (PointerType (Func 0) 0)\<rparr>)
   \<and> pointee_signature (example_sigs(0 := FuncType Void [] True))
         (Pointer (PointerType (Func 0) 0))
       = Some (FuncType Void [] True)"
  by (simp add: Function_Type_def NewPointer_def pointee_signature_def example_decl_def
        example_sigs_def Let_def)

text \<open>
  C9 (amended): once an accessor has returned a type \<open>t\<close>, leaving the object \<open>x1\<close> with
  its cache set, every later call returns the same \<open>t\<close> and leaves the object as it
  is: this holds for \<open>x1\<close> itself (calling twice) and for every object \<open>x2\<close> with the
  same cache field, that is, after an operand, the element type or the pointer \<open>Sig\<close>
  has been replaced (and, for operands, whatever their own accessor then does). This
  holds for the type of a function and of every memory instruction that has a
  result. The type first computed for a function is the pointer type around the
  pointer \<open>Sig\<close>: in every store it says of the function what the signature object at
  that address holds then, so a change made to that object in place shows in it.
\<close>

theorem cached_type_field_is_stable:
  "(Function_Type f = (t1, f1) \<longrightarrow>
      (\<forall>f2. Function.Typ f2 = Function.Typ f1 \<longrightarrow> Function_Type f2 = (t1, f2)))
   \<and> (InstAlloca_Type al = (t2, al1) \<longrightarrow>
      (\<forall>al2. InstAlloca.Typ al2 = InstAlloca.Typ al1 \<longrightarrow> InstAlloca_Type al2 = (t2, al2)))
   \<and> (InstLoad_Type value_Type ld = Inr (t3, ld1) \<longrightarrow>
      (\<forall>vt2 ld2. InstLoad.Typ ld2 = InstLoad.Typ ld1 \<longrightarrow> InstLoad_Type vt2 ld2 = Inr (t3, ld2)))
   \<and> (InstCmpXchg_Type value_Type cx = Inr (t4, cx1) \<longrightarrow>
      (\<forall>vt2 cx2. InstCmpXchg.Typ cx2 = InstCmpXchg.Typ cx1 \<longrightarrow>
         InstCmpXchg_Type vt2 cx2 = Inr (t4, cx2)))
   \<and> (InstAtomicRMW_Type value_Type rmw = Inr (t5, rmw1) \<longrightarrow>
      (\<forall>vt2 rmw2. InstAtomicRMW.Typ rmw2 = InstAtomicRMW.Typ rmw1 \<longrightarrow>
         InstAtomicRMW_Type vt2 rmw2 = Inr (t5, rmw2)))
   \<and> (InstGetElementPtr_Type gep = (t6, gep1) \<longrightarrow>
      (\<forall>gep2. InstGetElementPtr.Typ gep2 = InstGetElementPtr.Typ gep1 \<longrightarrow>
         InstGetElementPtr_Type gep2 = (t6, gep2)))
   \<and> (Function.Typ f = None \<longrightarrow>
      fst (Function_Type f) = Pointer (PointerType (Func (Sig f)) 0) \<and>
      (\<forall>S. pointee_signature S (fst (Function_Type f)) = Some (S (Sig f))))"
proof -
  have stable: "(Function_Type f = (t1, f1) \<longrightarrow>
      (\<forall>f2. Function.Typ f2 = Function.Typ f1 \<longrightarrow> Function_Type f2 = (t1, f2)))
   \<and> (InstAlloca_Type al = (t2, al1) \<longrightarrow>
      (\<forall>al2. InstAlloca.Typ al2 = InstAlloca.Typ al1 \<longrightarrow> InstAlloca_Type al2 = (t2, al2)))
   \<and> (InstLoad_Type value_Type ld = Inr (t3, ld1) \<longrightarrow>
      (\<forall>vt2 ld2. InstLoad.Typ ld2 = InstLoad.Typ ld1 \<longrightarrow> InstLoad_Type vt2 ld2 = Inr (t3, ld2)))
   \<and> (InstCmpXchg_Type value_Type cx = Inr (t4, cx1) \<longrightarrow>
      (\<forall>vt2 cx2. InstCmpXchg.Typ cx2 = InstCmpXchg.Typ cx1 \<longrightarrow>
         InstCmpXchg_Type vt2 cx2 = Inr (t4, cx2)))
   \<and> (InstAtomicRMW_Type value_Type rmw = Inr (t5, rmw1) \<longrightarrow>
      (\<forall>vt2 rmw2. InstAtomicRMW.Typ rmw2 = InstAtomicRMW.Typ rmw1 \<longrightarrow>
         InstAtomicRMW_Type vt2 rmw2 = Inr (t5, rmw2)))
   \<and> (InstGetElementPtr_Type gep = (t6, gep1) \<longrightarrow>
      (\<forall>gep2. InstGetElementPtr.Typ gep2 = InstGetElementPtr.Typ gep1 \<longrightarrow>
         InstGetElementPtr_Type gep2 = (t6, gep2)))"
    by (intro conjI impI allI)
       (erule (1) Function_Type_stable InstAlloca_Type_stable InstLoad_Type_stable
          InstCmpXchg_Type_stable InstAtomicRMW_Type_stable InstGetElementPtr_Type_stable)+
  have shared: "Function.Typ f = None \<longrightarrow>
      fst (Function_Type f) = Pointer (PointerType (Func (Sig f)) 0) \<and>
      (\<forall>S. pointee_signature S (fst (Function_Type f)) = Some (S (Sig f)))"
    by (simp add: Function_Type_fresh pointee_signature_def)
  show ?thesis
    using conjI [OF stable shared] by (simp only: conj_assoc)
qed

theorem cached_type_field_is_stable_witness:
  "Function_Type (example_decl\<lparr>Function.Typ := Some (PointerType (Func 0) 0),
                               Sig := 2\<rparr>)
     = (Pointer (PointerType (Func 0) 0),
        example_decl\<lparr>Function.Typ := Some (PointerType (Func 0) 0),
                     Sig := 2\<rparr>)
   \<and> InstAlloca_Type ((NewAlloca (IntType 32) :: Type InstAlloca)
        \<lparr>InstAlloca.Typ := Some (PointerType (IntType 32) 0), InstAlloca.ElemType := IntType 64\<rparr>)
     = (Pointer (PointerType (IntType 32) 0),
        (NewAlloca (IntType 32))
          \<lparr>InstAlloca.Typ := Some (PointerType (IntType 32) 0), InstAlloca.ElemType := IntType 64\<rparr>)
   \<and> InstLoad_Type typed_value_Type
        ((NewLoad (Pointer (PointerType (IntType 32) 0)))
           \<lparr>InstLoad.Typ := Some (IntType 32), InstLoad.Src := IntType 7\<rparr>)
     = Inr (IntType 32,
            (NewLoad (Pointer (PointerType (IntType 32) 0)))
              \<lparr>InstLoad.Typ := Some (IntType 32), InstLoad.Src := IntType 7\<rparr>)
   \<and> InstCmpXchg_Type typed_value_Type
        ((NewCmpXchg (Pointer (PointerType (IntType 32) 0)) (IntType 32) (IntType 32) 0 0)
           \<lparr>InstCmpXchg.Typ := Some (StructType [IntType 32, I1]), InstCmpXchg.New := IntType 64\<rparr>)
     = Inr (Struct (StructType [IntType 32, I1]),
            (NewCmpXchg (Pointer (PointerType (IntType 32) 0)) (IntType 32) (IntType 32) 0 0)
              \<lparr>InstCmpXchg.Typ := Some (StructType [IntType 32, I1]),
               InstCmpXchg.New := IntType 64\<rparr>)
   \<and> InstAtomicRMW_Type typed_value_Type
        ((NewAtomicRMW 0 (Pointer (PointerType (IntType 8) 0)) (IntType 8) 0)
           \<lparr>InstAtomicRMW.Typ := Some (IntType 8), InstAtomicRMW.Dst := Void\<rparr>)
     = Inr (IntType 8,
            (NewAtomicRMW 0 (Pointer (PointerType (IntType 8) 0)) (IntType 8) 0)
              \<lparr>InstAtomicRMW.Typ := Some (IntType 8), InstAtomicRMW.Dst := Void\<rparr>)
   \<and> InstGetElementPtr_Type ((NewGetElementPtr (IntType 32) (IntType 0) [] :: Type InstGetElementPtr)
        \<lparr>InstGetElementPtr.Typ := Some (Pointer (PointerType (IntType 32) 0)),
         InstGetElementPtr.ElemType := IntType 64\<rparr>)
     = (Pointer (PointerType (IntType 32) 0),
        (NewGetElementPtr (IntType 32) (IntType 0) [])
          \<lparr>InstGetElementPtr.Typ := Some (Pointer (PointerType (IntType 32) 0)),
           InstGetElementPtr.ElemType := IntType 64\<rparr>)
   \<and> pointee_signature example_sigs (fst (Function_Type example_decl))
       = Some (FuncType Void [] False)
   \<and> pointee_signature (example_sigs(0 := FuncType Void [] True))
         (fst (Function_Type example_decl))
       = Some (FuncType Void [] True)"
  using cached_type_field_is_stable
    [where f = example_decl and ?t1.0 = "Pointer (PointerType (Func 0) 0)"
       and ?f1.0 = "example_decl\<lparr>Function.Typ := Some (PointerType (Func 0) 0)\<rparr>"
       and al = "NewAlloca (IntType 32) :: Type InstAlloca"
       and ?t2.0 = "Pointer (PointerType (IntType 32) 0)"
       and ?al1.0 = "(NewAlloca (IntType 32))\<lparr>InstAlloca.Typ := Some (PointerType (IntType 32) 0)\<rparr>"
       and value_Type = typed_value_Type
       and ld = "NewLoad (Pointer (PointerType (IntType 32) 0))"
       and ?t3.0 = "IntType 32"
       and ?ld1.0 = "(NewLoad (Pointer (PointerType (IntType 32) 0)))\<lparr>InstLoad.Typ := Some (IntType 32)\<rparr>"
       and cx = "NewCmpXchg (Pointer (PointerType (IntType 32) 0)) (IntType 32) (IntType 32) 0 0"
       and ?t4.0 = "Struct (StructType [IntType 32, I1])"
       and ?cx1.0 = "(NewCmpXchg (Pointer (PointerType (IntType 32) 0)) (IntType 32) (IntType 32) 0 0)
                       \<lparr>InstCmpXchg.Typ := Some (StructType [IntType 32, I1])\<rparr>"
       and rmw = "NewAtomicRMW 0 (Pointer (PointerType (IntType 8) 0)) (IntType 8) 0"
       and ?t5.0 = "IntType 8"
       and ?rmw1.0 = "(NewAtomicRMW 0 (Pointer (PointerType (IntType 8) 0)) (IntType 8) 0)
                        \<lparr>InstAtomicRMW.Typ := Some (IntType 8)\<rparr>"
       and gep = "NewGetElementPtr (IntType 32) (IntType 0) [] :: Type InstGetElementPtr"
       and ?t6.0 = "Pointer (PointerType (IntType 32) 0)"
       and ?gep1.0 = "(NewGetElementPtr (IntType 32) (IntType 0) [])
                        \<lparr>InstGetElementPtr.Typ := Some (Pointer (PointerType (IntType 32) 0))\<rparr>"]
  by (simp add: Function_Type_def InstAlloca_Type_def InstLoad_Type_def InstCmpXchg_Type_def
        InstAtomicRMW_Type_def InstGetElementPtr_Type_def example_decl_def NewAlloca_def
        NewLoad_def NewCmpXchg_def NewAtomicRMW_def NewGetElementPtr_def NewPointer_def
        NewStruct_def typed_value_Type_def Let_def pointee_signature_def example_sigs_def)

section \<open>Numbering\<close>

lemma number_append:
  "number R g i (xs @ ys) =
     (case number R g i xs of
        (Some e, xs1, k) \<Rightarrow> (Some e, xs1 @ ys, k)
      | (None, xs1, k) \<Rightarrow>
          (case number R g k ys of (e, ys1, k1) \<Rightarrow> (e, xs1 @ ys1, k1)))"
proof (induction xs arbitrary: i)
  case Nil
  show ?case by (simp split: prod.splits)
next
  case (Cons x xs)
  show ?case
    by (simp add: Cons.IH split: prod.splits option.splits)
qed

lemma setName_number:
  assumes law: "\<And>s x. Nm (St s x) = s"
  shows "number R g i (Nm n # rest) =
     (case setName R g Nm St i n of
        Inl e \<Rightarrow> (Some e, Nm n # rest, i)
      | Inr (n1, i1) \<Rightarrow>
          (case number R g i1 rest of (e, rest1, k) \<Rightarrow> (e, Nm n1 # rest1, k)))"
  by (auto simp: setName_def isUnnamed_def Let_def law split: prod.splits)

lemma assign_params_number:
  "number R g i (map Param.LocalName ps) =
     (case assign_params R g i ps of (e, ps1, k) \<Rightarrow> (e, map Param.LocalName ps1, k))"
proof (induction ps arbitrary: i)
  case Nil
  show ?case by simp
next
  case (Cons p ps)
  have law: "\<And>s x. Param.LocalName (Param_SetName s x) = s"
    by (simp add: Param_SetName_def)
  show ?case
    by (simp add: setName_number [where Nm = Param.LocalName and St = Param_SetName, OF law]
          Cons.IH del: number.simps split: sum.splits prod.splits)
qed

lemma Instruction_Name_SetName:
  "Instruction_Named inst \<Longrightarrow> Instruction_Name (Instruction_SetName s inst) = s"
  by (cases inst) simp_all

lemma visited_inst_SetName [simp]:
  "visited_inst (Instruction_SetName s inst) = visited_inst inst"
  by (cases inst) (simp_all add: visited_inst_def)


lemma assign_insts_number:
  "number R g i (map Instruction_Name (filter visited_inst insts)) =
     (case assign_insts R g i insts of
        (e, insts1, k) \<Rightarrow> (e, map Instruction_Name (filter visited_inst insts1), k))"
proof (induction insts arbitrary: i)
  case Nil
  show ?case by simp
next
  case (Cons inst insts)
  show ?case
  proof (cases "visited_inst inst")
    case False
    then have skip: "\<not> Instruction_Named inst \<or> isVoidValue (Inl inst)"
      by (simp add: visited_inst_def)
    show ?thesis
      using False skip by (auto simp: Cons.IH split: prod.splits)
  next
    case True
    then have named: "Instruction_Named inst" and nonvoid: "\<not> isVoidValue (Inl inst)"
      by (simp_all add: visited_inst_def)
    have step: "number R g i (Instruction_Name inst # rest) =
       (case setName R g Instruction_Name Instruction_SetName i inst of
          Inl e \<Rightarrow> (Some e, Instruction_Name inst # rest, i)
        | Inr (n1, i1) \<Rightarrow>
            (case number R g i1 rest of (e, rest1, k) \<Rightarrow> (e, Instruction_Name n1 # rest1, k)))"
      for rest
      using named
      by (auto simp: setName_def isUnnamed_def Let_def Instruction_Name_SetName
            split: prod.splits)
    have keep: "setName R g Instruction_Name Instruction_SetName i inst = Inr (n1, i1) \<Longrightarrow>
        visited_inst n1" for n1 i1
      using True by (auto simp: setName_def Let_def split: if_splits)
    show ?thesis
      using True named nonvoid
      by (auto simp: step Cons.IH keep simp del: number.simps split: sum.splits prod.splits)
  qed
qed

lemma assign_term_number:
  "number R g i (term_names tm) =
     (case assign_term R g i tm of (e, tm1, k) \<Rightarrow> (e, term_names tm1, k))"
proof (cases tm)
  case None
  then show ?thesis by (simp add: term_names_def assign_term_def)
next
  case (Some n)
  show ?thesis
  proof (cases n)
    case (Ret v)
    with Some show ?thesis by (simp add: term_names_def assign_term_def)
  next
    case (Invoke t)
    with Some show ?thesis
      by (auto simp: term_names_def assign_term_def setName_def isUnnamed_def Let_def)
  qed
qed

lemma assign_block_number:
  "number R g i (block_names block) =
     (case assign_block R g i block of (e, block1, k) \<Rightarrow> (e, block_names block1, k))"
proof -
  have law: "\<And>s x. BasicBlock.LocalName (BasicBlock_SetName s x) = s"
    by (simp add: BasicBlock_SetName_def)
  have same: "setName R g BasicBlock.LocalName BasicBlock_SetName i block = Inr (b1, i1) \<Longrightarrow>
      Insts b1 = Insts block \<and> Term b1 = Term block" for b1 i1
    by (auto simp: setName_def Let_def BasicBlock_SetName_def split: if_splits)
  show ?thesis
    unfolding block_names_def
    by (auto simp: setName_number [where Nm = BasicBlock.LocalName and St = BasicBlock_SetName, OF law]
          assign_block_def number_append assign_insts_number assign_term_number
          simp del: number.simps dest!: same split: sum.splits prod.splits option.splits)
qed

lemma assign_blocks_number:
  "number R g i (concat (map block_names blocks)) =
     (case assign_blocks R g i blocks of
        (e, blocks1, k) \<Rightarrow> (e, concat (map block_names blocks1), k))"
proof (induction blocks arbitrary: i)
  case Nil
  show ?case by simp
next
  case (Cons b bs)
  show ?case
    by (auto simp: number_append assign_block_number Cons.IH
          simp del: number.simps split: prod.splits option.splits)
qed

lemma AssignIDs_number:
  assumes "Blocks f \<noteq> []"
  shows "\<exists>k. number R (GlobalName f) 0 (visit_names f) =
           (fst (AssignIDs R f), visit_names (snd (AssignIDs R f)), k)"
  using assms
  by (auto simp: visit_names_def AssignIDs_def number_append assign_params_number
        assign_blocks_number simp del: number.simps split: prod.splits option.splits)

lemma counter_at_0 [simp]: "counter_at names 0 = 0"
  by (simp add: counter_at_def)

lemma counter_at_Suc [simp]:
  "counter_at (x # xs) (Suc j) = (if counted x then Suc (counter_at xs j) else counter_at xs j)"
  by (simp add: counter_at_def)

lemma isLocalID_Nil [simp]: "\<not> isLocalID []"
  by (simp add: isLocalID_def)

lemma number_length:
  "number R g i ns = (e, ns1, k) \<Longrightarrow> length ns1 = length ns"
  by (induction ns arbitrary: i e ns1 k) (auto split: if_splits prod.splits)

lemma number_ok:
  "number R g i ns = (None, ns1, k) \<Longrightarrow>
     k = i + length (filter counted ns) \<and>
     (\<forall>j<length ns.
        ns1 ! j = (if isUnnamed (ns ! j) then itoa (i + counter_at ns j) else ns ! j) \<and>
        (isLocalID (ns ! j) \<longrightarrow> ns ! j = itoa (i + counter_at ns j)))"
proof (induction ns arbitrary: i ns1 k)
  case Nil
  then show ?case by simp
next
  case (Cons x xs)
  show ?case
  proof (cases "x = []")
    case True
    with Cons.prems obtain r where rec: "number R g (Suc i) xs = (None, r, k)"
      and ns1: "ns1 = itoa i # r"
      by (auto split: prod.splits)
    from Cons.IH [OF rec] True ns1 show ?thesis
      by (auto simp: counted_def isUnnamed_def nth_Cons split: nat.splits)
  next
    case False
    show ?thesis
    proof (cases "isLocalID x")
      case True
      with False Cons.prems obtain r where rec: "number R g (Suc i) xs = (None, r, k)"
        and ns1: "ns1 = x # r" and eq: "x = itoa i"
        by (auto split: prod.splits if_splits)
      from Cons.IH [OF rec] True False ns1 eq show ?thesis
        by (auto simp: counted_def isUnnamed_def nth_Cons split: nat.splits)
    next
      case nl: False
      with False Cons.prems obtain r where rec: "number R g i xs = (None, r, k)"
        and ns1: "ns1 = x # r"
        by (auto split: prod.splits if_splits)
      from Cons.IH [OF rec] nl False ns1 show ?thesis
        by (auto simp: counted_def isUnnamed_def nth_Cons split: nat.splits)
    qed
  qed
qed

lemma number_error:
  "number R g i ns = (Some err, ns1, k) \<Longrightarrow>
     \<exists>pre got post pre1.
       ns = pre @ got # post \<and> ns1 = pre1 @ got # post \<and>
       number R g i pre = (None, pre1, k) \<and> isLocalID got \<and> got \<noteq> itoa k \<and>
       err = InvalidLocalID (enc_Global R g) (enc_Local R (itoa k)) (enc_Local R got)"
proof (induction ns arbitrary: i ns1)
  case Nil
  then show ?case by simp
next
  case (Cons x xs)
  show ?case
  proof (cases "x = []")
    case True
    with Cons.prems obtain r where rec: "number R g (Suc i) xs = (Some err, r, k)"
      and ns1: "ns1 = itoa i # r"
      by (auto split: prod.splits)
    from Cons.IH [OF rec] obtain pre got post pre1 where
      h: "xs = pre @ got # post" "r = pre1 @ got # post"
         "number R g (Suc i) pre = (None, pre1, k)" "isLocalID got" "got \<noteq> itoa k"
         "err = InvalidLocalID (enc_Global R g) (enc_Local R (itoa k)) (enc_Local R got)"
      by blast
    have "x # xs = (x # pre) @ got # post" using h by simp
    moreover have "ns1 = (itoa i # pre1) @ got # post" using h ns1 by simp
    moreover have "number R g i (x # pre) = (None, itoa i # pre1, k)"
      using True h by simp
    ultimately show ?thesis using h by blast
  next
    case False
    show ?thesis
    proof (cases "isLocalID x")
      case nl: False
      with False Cons.prems obtain r where rec: "number R g i xs = (Some err, r, k)"
        and ns1: "ns1 = x # r"
        by (auto split: prod.splits)
      from Cons.IH [OF rec] obtain pre got post pre1 where
        h: "xs = pre @ got # post" "r = pre1 @ got # post"
           "number R g i pre = (None, pre1, k)" "isLocalID got" "got \<noteq> itoa k"
           "err = InvalidLocalID (enc_Global R g) (enc_Local R (itoa k)) (enc_Local R got)"
        by blast
      have "x # xs = (x # pre) @ got # post" using h by simp
      moreover have "ns1 = (x # pre1) @ got # post" using h ns1 by simp
      moreover have "number R g i (x # pre) = (None, x # pre1, k)"
        using False nl h by simp
      ultimately show ?thesis using h by blast
    next
      case True
      show ?thesis
      proof (cases "x = itoa i")
        case eq: True
        with True False Cons.prems obtain r where rec: "number R g (Suc i) xs = (Some err, r, k)"
          and ns1: "ns1 = x # r"
          by (auto split: prod.splits)
        from Cons.IH [OF rec] obtain pre got post pre1 where
          h: "xs = pre @ got # post" "r = pre1 @ got # post"
             "number R g (Suc i) pre = (None, pre1, k)" "isLocalID got" "got \<noteq> itoa k"
             "err = InvalidLocalID (enc_Global R g) (enc_Local R (itoa k)) (enc_Local R got)"
          by blast
        have "x # xs = (x # pre) @ got # post" using h by simp
        moreover have "ns1 = (x # pre1) @ got # post" using h ns1 by simp
        moreover have "number R g i (x # pre) = (None, x # pre1, k)"
          using False True eq h by simp
        ultimately show ?thesis using h by blast
      next
        case ne: False
        with True False Cons.prems have
          "ns1 = x # xs" "k = i"
          "err = InvalidLocalID (enc_Global R g) (enc_Local R (itoa i)) (enc_Local R x)"
          by auto
        moreover have "number R g i [] = (None, [], i)" by simp
        ultimately show ?thesis using True ne
          by (intro exI [of _ "[]"] exI [of _ x] exI [of _ xs]) simp
      qed
    qed
  qed
qed

lemma setName_result:
  assumes "setName R g Nm St i n = Inr (n1, i1)"
  shows "n1 = n \<or> (\<exists>s. n1 = St s n)"
  using assms by (auto simp: setName_def Let_def split: if_splits)

lemma param_renamed_refl [simp]: "param_renamed p p"
  by (simp add: param_renamed_def Param_SetName_def)

lemma param_renamed_SetName [simp]: "param_renamed p (Param_SetName s p)"
  by (simp add: param_renamed_def Param_SetName_def)

lemma Instruction_SetName_own [simp]: "Instruction_SetName (Instruction_Name inst) inst = inst"
  by (cases inst) simp_all

lemma inst_renamed_refl [simp]: "inst_renamed inst inst"
  by (simp add: inst_renamed_def)

lemma inst_renamed_SetName [simp]:
  "visited_inst inst \<Longrightarrow> inst_renamed inst (Instruction_SetName s inst)"
  by (cases inst) (simp_all add: inst_renamed_def visited_inst_def)

lemma term_renamed_refl [simp]: "term_renamed tm tm"
proof (cases tm)
  case None
  then show ?thesis by (simp add: term_renamed_def)
next
  case (Some n)
  then show ?thesis by (cases n) (simp_all add: term_renamed_def)
qed

lemma term_renamed_SetName [simp]:
  "Terminator_Named n \<and> \<not> isVoidValue (Inr n) \<Longrightarrow>
     term_renamed (Some n) (Some (Terminator_SetName s n))"
  by (cases n) (simp_all add: term_renamed_def)

lemma block_renamed_refl [simp]: "block_renamed b b"
  by (simp add: block_renamed_def list_all2_refl)

lemma assign_params_renamed:
  "assign_params R g i ps = (e, ps1, k) \<Longrightarrow> list_all2 param_renamed ps ps1"
proof (induction ps arbitrary: i e ps1 k)
  case Nil
  then show ?case by simp
next
  case (Cons p ps)
  show ?case
  proof (cases "setName R g Param.LocalName Param_SetName i p")
    case (Inl err)
    with Cons.prems show ?thesis by (auto simp: list_all2_refl)
  next
    case (Inr r)
    obtain p1 i1 where r: "r = (p1, i1)" by (cases r)
    obtain e2 r2 k2 where rec: "assign_params R g i1 ps = (e2, r2, k2)"
      by (cases "assign_params R g i1 ps") auto
    have "param_renamed p p1"
      using setName_result [OF Inr [unfolded r]] by auto
    moreover have "ps1 = p1 # r2"
      using Cons.prems Inr r rec by simp
    ultimately show ?thesis
      using Cons.IH [OF rec] by simp
  qed
qed

lemma assign_insts_renamed:
  "assign_insts R g i insts = (e, insts1, k) \<Longrightarrow> list_all2 inst_renamed insts insts1"
proof (induction insts arbitrary: i e insts1 k)
  case Nil
  then show ?case by simp
next
  case (Cons inst insts)
  show ?case
  proof (cases "visited_inst inst")
    case False
    then have skip: "\<not> Instruction_Named inst \<or> isVoidValue (Inl inst)"
      by (simp add: visited_inst_def)
    obtain e2 r2 k2 where rec: "assign_insts R g i insts = (e2, r2, k2)"
      by (cases "assign_insts R g i insts") auto
    have "insts1 = inst # r2"
      using Cons.prems skip rec by (auto split: if_splits)
    then show ?thesis using Cons.IH [OF rec] by simp
  next
    case True
    then have named: "Instruction_Named inst" and nonvoid: "\<not> isVoidValue (Inl inst)"
      by (simp_all add: visited_inst_def)
    show ?thesis
    proof (cases "setName R g Instruction_Name Instruction_SetName i inst")
      case (Inl err)
      with Cons.prems named nonvoid have "insts1 = inst # insts" by simp
      then show ?thesis by (simp add: list_all2_refl)
    next
      case (Inr r)
      obtain n1 i1 where r: "r = (n1, i1)" by (cases r)
      obtain e2 r2 k2 where rec: "assign_insts R g i1 insts = (e2, r2, k2)"
        by (cases "assign_insts R g i1 insts") auto
      have "inst_renamed inst n1"
        using setName_result [OF Inr [unfolded r]] True by auto
      moreover have "insts1 = n1 # r2"
        using Cons.prems Inr r rec named nonvoid by simp
      ultimately show ?thesis using Cons.IH [OF rec] by simp
    qed
  qed
qed

lemma assign_term_renamed:
  assumes "assign_term R g i tm = (e, tm1, k)"
  shows "term_renamed tm tm1"
proof (cases tm)
  case None
  with assms show ?thesis by (simp add: assign_term_def term_renamed_def)
next
  case (Some n)
  show ?thesis
  proof (cases "Terminator_Named n \<and> \<not> isVoidValue (Inr n)")
    case False
    with Some assms have "tm1 = tm" by (auto simp: assign_term_def split: if_splits)
    then show ?thesis by simp
  next
    case True
    show ?thesis
    proof (cases "setName R g Terminator_Name Terminator_SetName i n")
      case (Inl err)
      with True Some assms have "tm1 = tm" by (auto simp: assign_term_def)
      then show ?thesis by simp
    next
      case (Inr r)
      obtain n1 i1 where r: "r = (n1, i1)" by (cases r)
      have "tm1 = Some n1" using True Some assms Inr r by (auto simp: assign_term_def)
      moreover have "n1 = n \<or> (\<exists>s. n1 = Terminator_SetName s n)"
        using setName_result [OF Inr [unfolded r]] .
      ultimately show ?thesis using Some True by auto
    qed
  qed
qed

lemma block_renamed_intro:
  assumes "BasicBlock.more block1 = BasicBlock.more block"
    and "list_all2 inst_renamed (Insts block) (Insts block1)"
    and "term_renamed (Term block) (Term block1)"
  shows "block_renamed block block1"
  using assms by (simp add: block_renamed_def BasicBlock.equality)

lemma assign_block_renamed:
  assumes "assign_block R g i block = (e, block1, k)"
  shows "block_renamed block block1"
proof (cases "setName R g BasicBlock.LocalName BasicBlock_SetName i block")
  case (Inl err)
  with assms have "block1 = block" by (simp add: assign_block_def)
  then show ?thesis by simp
next
  case (Inr r)
  obtain b1 i1 where r: "r = (b1, i1)" by (cases r)
  have "b1 = block \<or> (\<exists>s. b1 = BasicBlock_SetName s block)"
    using setName_result [OF Inr [unfolded r]] .
  then have same: "Insts b1 = Insts block" "Term b1 = Term block"
      "BasicBlock.more b1 = BasicBlock.more block"
    by (auto simp: BasicBlock_SetName_def)
  obtain e2 insts1 i2 where li: "assign_insts R g i1 (Insts b1) = (e2, insts1, i2)"
    by (cases "assign_insts R g i1 (Insts b1)") auto
  have ri: "list_all2 inst_renamed (Insts block) insts1"
    using assign_insts_renamed [OF li] same by simp
  show ?thesis
  proof (cases e2)
    case (Some err)
    with assms Inr r li have "block1 = b1\<lparr>Insts := insts1\<rparr>"
      by (simp add: assign_block_def)
    then show ?thesis using ri same by (intro block_renamed_intro) simp_all
  next
    case None
    obtain e3 tm1 i3 where lt: "assign_term R g i2 (Term b1) = (e3, tm1, i3)"
      by (cases "assign_term R g i2 (Term b1)") auto
    with None assms Inr r li have "block1 = b1\<lparr>Insts := insts1, Term := tm1\<rparr>"
      by (simp add: assign_block_def)
    then show ?thesis
      using ri same assign_term_renamed [OF lt] by (intro block_renamed_intro) simp_all
  qed
qed

lemma assign_blocks_renamed:
  "assign_blocks R g i blocks = (e, blocks1, k) \<Longrightarrow> list_all2 block_renamed blocks blocks1"
proof (induction blocks arbitrary: i e blocks1 k)
  case Nil
  then show ?case by simp
next
  case (Cons b bs)
  obtain e1 b1 i1 where hb: "assign_block R g i b = (e1, b1, i1)"
    by (cases "assign_block R g i b") auto
  note rb = assign_block_renamed [OF hb]
  show ?case
  proof (cases e1)
    case (Some err)
    with Cons.prems hb have "blocks1 = b1 # bs" by simp
    then show ?thesis using rb by (simp add: list_all2_refl)
  next
    case None
    obtain e2 r2 k2 where rec: "assign_blocks R g i1 bs = (e2, r2, k2)"
      by (cases "assign_blocks R g i1 bs") auto
    with None Cons.prems hb have "blocks1 = b1 # r2" by simp
    then show ?thesis using rb Cons.IH [OF rec] by simp
  qed
qed

lemma AssignIDs_renamed_only: "renamed_only f (snd (AssignIDs R f))"
proof (cases "Blocks f = []")
  case True
  then show ?thesis by (simp add: AssignIDs_def renamed_only_def list_all2_refl)
next
  case False
  obtain e1 ps1 i1 where hp: "assign_params R (GlobalName f) 0 (Params f) = (e1, ps1, i1)"
    by (cases "assign_params R (GlobalName f) 0 (Params f)") auto
  note rp = assign_params_renamed [OF hp]
  show ?thesis
  proof (cases e1)
    case (Some err)
    with False hp have "snd (AssignIDs R f) = f\<lparr>Params := ps1\<rparr>"
      by (simp add: AssignIDs_def)
    then show ?thesis using rp by (simp add: renamed_only_def list_all2_refl)
  next
    case None
    obtain e2 bs1 i2 where hb: "assign_blocks R (GlobalName f) i1 (Blocks f) = (e2, bs1, i2)"
      by (cases "assign_blocks R (GlobalName f) i1 (Blocks f)") auto
    with None False hp have "snd (AssignIDs R f) = f\<lparr>Params := ps1, Blocks := bs1\<rparr>"
      by (simp add: AssignIDs_def)
    then show ?thesis using rp assign_blocks_renamed [OF hb] by (simp add: renamed_only_def)
  qed
qed

lemma isLocalID_not_Nil: "isLocalID got \<Longrightarrow> got \<noteq> []"
  by (auto simp: isLocalID_def)

lemma number_at_numeric:
  assumes "number R g i pre = (None, pre1, k)" and "isLocalID got"
  shows "number R g i (pre @ got # post) =
     (if got = itoa k then
        (case number R g (k + 1) post of (e, post1, k1) \<Rightarrow> (e, pre1 @ got # post1, k1))
      else
        (Some (InvalidLocalID (enc_Global R g) (enc_Local R (itoa k)) (enc_Local R got)),
         pre1 @ got # post, k))"
  using assms isLocalID_not_Nil [OF assms(2)]
  by (simp add: number_append split: prod.splits)


lemmas example_defs =
  example_def_def example_decl_def example_params_def example_block_def example_sigs_def
  example_block_load_named_def example_call_block_def example_void_invoke_block_def
  example_void_load_block_def NewAlloca_def NewLoad_def NewStore_def NewFence_def sample_def

lemmas AssignIDs_defs =
  AssignIDs_def assign_block_def assign_term_def setName_def isUnnamed_def isLocalID_def
  Param_SetName_def BasicBlock_SetName_def digit_def itoa.simps

lemmas visit_defs = visit_names_def block_names_def term_names_def visited_inst_def

lemmas order_defs = visit_order_def block_order_def


lemma names_of_visited_insts:
  "map Instruction_Name (filter visited_inst insts) = List.map_filter result_name insts"
proof (induction insts)
  case Nil
  show ?case by simp
next
  case (Cons inst insts)
  then show ?case
    by (cases inst) (simp_all add: visited_inst_def)
qed

lemma names_of_visited_term:
  "term_names tm = (case terminator_result_name tm of None \<Rightarrow> [] | Some n \<Rightarrow> [n])"
proof (cases tm)
  case None
  then show ?thesis by (simp add: term_names_def)
next
  case (Some n)
  then show ?thesis by (cases n) (simp_all add: term_names_def)
qed

lemma block_names_order: "block_names block = block_order block"
  by (simp add: block_names_def block_order_def names_of_visited_insts names_of_visited_term)

lemma visit_names_order: "visit_names f = visit_order f"
proof -
  have "block_names = (block_order :: 'a BasicBlock \<Rightarrow> string list)"
    by (rule ext) (rule block_names_order)
  then show ?thesis by (simp add: visit_names_def visit_order_def)
qed

text \<open>
  C1, as stated, fails: only a call (and an invoke) is tested for a void type, so an
  instruction of another kind is visited whatever its result type. Here the first
  instruction of the block is an unnamed load through a pointer to void: its result
  type is void, and it is numbered \<open>1\<close> and takes a counter slot (the alloca after it
  is \<open>2\<close>).
\<close>

theorem load_of_void_type_is_numbered:
  "InstLoad_Type typed_value_Type (NewLoad (Pointer (PointerType Void 0)))
     = Inr (Void, (NewLoad (Pointer (PointerType Void 0)))\<lparr>InstLoad.Typ := Some Void\<rparr>)
   \<and> AssignIDs sample (example_decl\<lparr>Blocks := [example_void_load_block]\<rparr>)
     = (None,
        example_decl
          \<lparr>Blocks :=
             [\<lparr>BasicBlock.LocalName = ''0'',
               Insts = [Load ((NewLoad (Pointer (PointerType Void 0)))
                                \<lparr>InstLoad.LocalName := ''1''\<rparr>),
                        Alloca ((NewAlloca (IntType 32))\<lparr>InstAlloca.LocalName := ''2''\<rparr>)],
               Term = Some (Ret None)\<rparr>]\<rparr>)"
  by (simp add: example_defs AssignIDs_defs InstLoad_Type_def typed_value_Type_def)

text \<open>
  C1 (amended): for every function with a non-empty block list, \<open>AssignIDs\<close> returns the
  error and leaves the names that the numbering policy gives on the entities taken
  in this order (\<open>visit_order\<close>): the parameters in declaration order, then for each
  block in order the block itself, each instruction that has a result name unless it
  is a call whose type is void, and the terminator when it is an invoke whose type is
  not void; with one counter that starts at 0 and grows by one for each of these
  entities that is unnamed or carries a numeric name. An instruction with a result
  name that is not a call is visited whatever its result type. Nothing but those
  names changes. When no error is returned, the entity at position \<open>j\<close> of that order,
  if unnamed, gets as its name the number of earlier entities in the order that were
  unnamed or numeric, and keeps its name otherwise. The first instance below is the
  spec's numbering example: \<open>0\<close>, \<open>x\<close>, \<open>1\<close>, \<open>2\<close>, \<open>3\<close>, the terminator skipped; the
  second has a void call, a store, a fence and a void invoke, all skipped without a
  counter slot, and a call and an invoke of type \<open>i32\<close>, both numbered.
\<close>

theorem AssignIDs_numbers_named_values_in_order:
  "Blocks f \<noteq> [] \<longrightarrow>
     (\<exists>k. number R (GlobalName f) 0 (visit_order f) =
            (fst (AssignIDs R f), visit_order (snd (AssignIDs R f)), k))
     \<and> renamed_only f (snd (AssignIDs R f))
     \<and> (fst (AssignIDs R f) = None \<longrightarrow>
          length (visit_order (snd (AssignIDs R f))) = length (visit_order f) \<and>
          (\<forall>j<length (visit_order f).
             visit_order (snd (AssignIDs R f)) ! j =
               (if isUnnamed (visit_order f ! j) then itoa (counter_at (visit_order f) j)
                else visit_order f ! j)))"
proof (intro impI conjI)
  assume nonempty: "Blocks f \<noteq> []"
  from AssignIDs_number [OF nonempty, of R]
  obtain k where num: "number R (GlobalName f) 0 (visit_order f) =
      (fst (AssignIDs R f), visit_order (snd (AssignIDs R f)), k)"
    unfolding visit_names_order ..
  then show "\<exists>k. number R (GlobalName f) 0 (visit_order f) =
      (fst (AssignIDs R f), visit_order (snd (AssignIDs R f)), k)" ..
  show "renamed_only f (snd (AssignIDs R f))" by (rule AssignIDs_renamed_only)
  assume ok: "fst (AssignIDs R f) = None"
  show "length (visit_order (snd (AssignIDs R f))) = length (visit_order f)"
    using number_length [OF num] .
  show "\<forall>j<length (visit_order f).
      visit_order (snd (AssignIDs R f)) ! j =
        (if isUnnamed (visit_order f ! j) then itoa (counter_at (visit_order f) j)
         else visit_order f ! j)"
    using number_ok [OF num [unfolded ok]] by simp
qed

theorem AssignIDs_numbers_named_values_in_order_witness:
  "AssignIDs sample example_def =
     (None,
      example_def
        \<lparr>Params := [\<lparr>Param.LocalName = ''0'', Typ = IntType 32\<rparr>,
                    \<lparr>Param.LocalName = ''x'', Typ = IntType 32\<rparr>],
         Blocks := [\<lparr>BasicBlock.LocalName = ''1'',
                     Insts = [Alloca ((NewAlloca (IntType 32))\<lparr>InstAlloca.LocalName := ''2''\<rparr>),
                              Load ((NewLoad (Pointer (PointerType (IntType 32) 0)))
                                      \<lparr>InstLoad.LocalName := ''3''\<rparr>)],
                     Term = Some (Ret None)\<rparr>]\<rparr>)
   \<and> visit_order example_def = ['''', ''x'', '''', '''', '''']
   \<and> visit_order (snd (AssignIDs sample example_def)) = [''0'', ''x'', ''1'', ''2'', ''3'']
   \<and> visit_order (snd (AssignIDs sample (example_def\<lparr>Blocks := [example_block, example_block]\<rparr>)))
       = [''0'', ''x'', ''1'', ''2'', ''3'', ''4'', ''5'', ''6'']
   \<and> AssignIDs sample
        (example_def\<lparr>Blocks := [example_call_block, example_void_invoke_block, example_block]\<rparr>)
     = (None,
        example_def
          \<lparr>Params := [\<lparr>Param.LocalName = ''0'', Typ = IntType 32\<rparr>,
                      \<lparr>Param.LocalName = ''x'', Typ = IntType 32\<rparr>],
           Blocks :=
             [\<lparr>BasicBlock.LocalName = ''1'',
               Insts = [Call \<lparr>InstCall.LocalName = [], Typ = Void\<rparr>,
                        Store (NewStore (IntType 32) (Pointer (PointerType (IntType 32) 0))),
                        Fence (NewFence 0),
                        Call \<lparr>InstCall.LocalName = ''2'', Typ = IntType 32\<rparr>],
               Term = Some (Invoke \<lparr>TermInvoke.LocalName = ''3'', Typ = IntType 32\<rparr>)\<rparr>,
              \<lparr>BasicBlock.LocalName = ''4'', Insts = [],
               Term = Some (Invoke \<lparr>TermInvoke.LocalName = [], Typ = Void\<rparr>)\<rparr>,
              \<lparr>BasicBlock.LocalName = ''5'',
               Insts = [Alloca ((NewAlloca (IntType 32))\<lparr>InstAlloca.LocalName := ''6''\<rparr>),
                        Load ((NewLoad (Pointer (PointerType (IntType 32) 0)))
                                \<lparr>InstLoad.LocalName := ''7''\<rparr>)],
               Term = Some (Ret None)\<rparr>]\<rparr>)
   \<and> visit_order
        (example_def\<lparr>Blocks := [example_call_block, example_void_invoke_block, example_block]\<rparr>)
       = ['''', ''x'', '''', '''', '''', '''', '''', '''', '''']"
  using AssignIDs_numbers_named_values_in_order [where f = example_def and R = sample]
    AssignIDs_numbers_named_values_in_order
      [where f = "example_def\<lparr>Blocks := [example_call_block, example_void_invoke_block,
                                          example_block]\<rparr>" and R = sample]
  by (simp add: example_defs AssignIDs_defs order_defs)

text \<open>
  C2: an entity whose name is numeric passes \<open>setName\<close> (the counter then grows by one,
  the entity is unchanged) exactly when the name is the decimal rendering of the
  counter; otherwise \<open>setName\<close> returns the error with the encoded function name, the
  expected and the actual identifier. For the whole pass: when the entities before a
  numeric name \<open>got\<close> are numbered without error, leaving the counter at \<open>k\<close> (the number
  of counting entities before), the pass goes on after \<open>got\<close> with the counter \<open>k + 1\<close>
  if \<open>got\<close> is \<open>k\<close> in decimal, and otherwise returns that error for \<open>k\<close> and \<open>got\<close>.
\<close>

theorem numeric_name_checked_against_counter:
  "(isLocalID (Nm n) \<longrightarrow>
      (Nm n = itoa ident \<longrightarrow> setName R g Nm St ident n = Inr (n, ident + 1)) \<and>
      (Nm n \<noteq> itoa ident \<longrightarrow>
         setName R g Nm St ident n =
           Inl (InvalidLocalID (enc_Global R g) (enc_Local R (itoa ident)) (enc_Local R (Nm n)))))
   \<and> (Blocks f \<noteq> [] \<and> visit_names f = pre @ got # post \<and>
       number R (GlobalName f) 0 pre = (None, pre1, k) \<and> isLocalID got \<longrightarrow>
        k = length (filter counted pre) \<and>
        (got = itoa k \<longrightarrow>
           (\<exists>post1 k1. number R (GlobalName f) (k + 1) post = (fst (AssignIDs R f), post1, k1) \<and>
                       visit_names (snd (AssignIDs R f)) = pre1 @ got # post1)) \<and>
        (got \<noteq> itoa k \<longrightarrow>
           fst (AssignIDs R f) =
             Some (InvalidLocalID (enc_Global R (GlobalName f)) (enc_Local R (itoa k))
                     (enc_Local R got))))"
proof (intro conjI impI)
  assume "isLocalID (Nm n)" and "Nm n = itoa ident"
  then show "setName R g Nm St ident n = Inr (n, ident + 1)"
    using isLocalID_not_Nil [of "Nm n"] by (simp add: setName_def isUnnamed_def Let_def)
next
  assume "isLocalID (Nm n)" and "Nm n \<noteq> itoa ident"
  then show "setName R g Nm St ident n =
      Inl (InvalidLocalID (enc_Global R g) (enc_Local R (itoa ident)) (enc_Local R (Nm n)))"
    using isLocalID_not_Nil [of "Nm n"] by (auto simp: setName_def isUnnamed_def Let_def)
next
  assume a: "Blocks f \<noteq> [] \<and> visit_names f = pre @ got # post \<and>
       number R (GlobalName f) 0 pre = (None, pre1, k) \<and> isLocalID got"
  then show "k = length (filter counted pre)"
    using number_ok [of R "GlobalName f" 0 pre pre1 k] by simp
next
  assume a: "Blocks f \<noteq> [] \<and> visit_names f = pre @ got # post \<and>
       number R (GlobalName f) 0 pre = (None, pre1, k) \<and> isLocalID got"
    and eq: "got = itoa k"
  from a obtain k2 where num: "number R (GlobalName f) 0 (pre @ got # post) =
      (fst (AssignIDs R f), visit_names (snd (AssignIDs R f)), k2)"
    using AssignIDs_number [of f R] by auto
  obtain e post1 k1 where rest: "number R (GlobalName f) (k + 1) post = (e, post1, k1)"
    by (cases "number R (GlobalName f) (k + 1) post") auto
  from a eq rest have "number R (GlobalName f) 0 (pre @ got # post) = (e, pre1 @ got # post1, k1)"
    by (simp add: number_at_numeric)
  with num rest show "\<exists>post1 k1.
      number R (GlobalName f) (k + 1) post = (fst (AssignIDs R f), post1, k1) \<and>
      visit_names (snd (AssignIDs R f)) = pre1 @ got # post1"
    by simp
next
  assume a: "Blocks f \<noteq> [] \<and> visit_names f = pre @ got # post \<and>
       number R (GlobalName f) 0 pre = (None, pre1, k) \<and> isLocalID got"
    and ne: "got \<noteq> itoa k"
  from a obtain k2 where num: "number R (GlobalName f) 0 (pre @ got # post) =
      (fst (AssignIDs R f), visit_names (snd (AssignIDs R f)), k2)"
    using AssignIDs_number [of f R] by auto
  from a ne have "number R (GlobalName f) 0 (pre @ got # post) =
      (Some (InvalidLocalID (enc_Global R (GlobalName f)) (enc_Local R (itoa k)) (enc_Local R got)),
       pre1 @ got # post, k)"
    by (simp add: number_at_numeric)
  with num show "fst (AssignIDs R f) =
      Some (InvalidLocalID (enc_Global R (GlobalName f)) (enc_Local R (itoa k)) (enc_Local R got))"
    by (metis fst_conv)
qed

theorem numeric_name_checked_against_counter_witness:
  "setName sample ''f'' Param.LocalName Param_SetName 3 \<lparr>Param.LocalName = ''5'', Typ = IntType 32\<rparr>
     = Inl (InvalidLocalID ''@f'' ''%3'' ''%5'')
   \<and> setName sample ''f'' Param.LocalName Param_SetName 3 \<lparr>Param.LocalName = ''3'', Typ = IntType 32\<rparr>
     = Inr (\<lparr>Param.LocalName = ''3'', Typ = IntType 32\<rparr>, 4)
   \<and> visit_names (example_def\<lparr>Blocks := [example_block_load_named ''5'']\<rparr>)
       = ['''', ''x'', '''', ''''] @ ''5'' # []
   \<and> number sample ''f'' 0 ['''', ''x'', '''', ''''] = (None, [''0'', ''x'', ''1'', ''2''], 3)
   \<and> fst (AssignIDs sample (example_def\<lparr>Blocks := [example_block_load_named ''5'']\<rparr>))
       = Some (InvalidLocalID ''@f'' ''%3'' ''%5'')
   \<and> AssignIDs sample (example_def\<lparr>Blocks := [example_block_load_named ''3'', example_block]\<rparr>)
       = (None,
          example_def
            \<lparr>Params := [\<lparr>Param.LocalName = ''0'', Typ = IntType 32\<rparr>,
                        \<lparr>Param.LocalName = ''x'', Typ = IntType 32\<rparr>],
             Blocks := [\<lparr>BasicBlock.LocalName = ''1'',
                         Insts = [Alloca ((NewAlloca (IntType 32))\<lparr>InstAlloca.LocalName := ''2''\<rparr>),
                                  Load ((NewLoad (Pointer (PointerType (IntType 32) 0)))
                                          \<lparr>InstLoad.LocalName := ''3''\<rparr>)],
                         Term = Some (Ret None)\<rparr>,
                        \<lparr>BasicBlock.LocalName = ''4'',
                         Insts = [Alloca ((NewAlloca (IntType 32))\<lparr>InstAlloca.LocalName := ''5''\<rparr>),
                                  Load ((NewLoad (Pointer (PointerType (IntType 32) 0)))
                                          \<lparr>InstLoad.LocalName := ''6''\<rparr>)],
                         Term = Some (Ret None)\<rparr>]\<rparr>)"
  using numeric_name_checked_against_counter
    [where Nm = Param.LocalName and n = "\<lparr>Param.LocalName = ''5'', Typ = IntType 32\<rparr>"
       and ident = 3 and R = sample and g = "''f''" and St = Param_SetName
       and f = "example_def\<lparr>Blocks := [example_block_load_named ''5'']\<rparr>"
       and pre = "['''', ''x'', '''', '''']" and got = "''5''" and post = "[]"
       and ?pre1.0 = "[''0'', ''x'', ''1'', ''2'']" and k = 3]
    numeric_name_checked_against_counter
    [where Nm = Param.LocalName and n = "\<lparr>Param.LocalName = ''3'', Typ = IntType 32\<rparr>"
       and ident = 3 and R = sample and g = "''f''" and St = Param_SetName
       and f = "example_def\<lparr>Blocks := [example_block_load_named ''3'', example_block]\<rparr>"
       and pre = "['''', ''x'', '''', '''']" and got = "''3''"
       and post = "['''', '''', '''']"
       and ?pre1.0 = "[''0'', ''x'', ''1'', ''2'']" and k = 3]
  by (simp add: example_defs AssignIDs_defs visit_defs)


text \<open>
  C3: if \<open>AssignIDs\<close> returns an error, the visited entities split into those before
  the mismatch, the mismatching entity and those after it. Before it no numeric name
  mismatches and every unnamed entity has the number it was assigned; the mismatching
  entity and every entity after it have the names they had. Nothing else in the
  function changes.
\<close>

theorem AssignIDs_aborts_at_first_mismatch:
  "fst (AssignIDs R f) = Some err \<longrightarrow>
     (\<exists>pre got post pre1 k.
        visit_names f = pre @ got # post \<and>
        visit_names (snd (AssignIDs R f)) = pre1 @ got # post \<and>
        length pre1 = length pre \<and>
        (\<forall>j<length pre.
           pre1 ! j = (if isUnnamed (pre ! j) then itoa (counter_at pre j) else pre ! j) \<and>
           (isLocalID (pre ! j) \<longrightarrow> pre ! j = itoa (counter_at pre j))) \<and>
        k = length (filter counted pre) \<and> isLocalID got \<and> got \<noteq> itoa k \<and>
        err = InvalidLocalID (enc_Global R (GlobalName f)) (enc_Local R (itoa k))
                (enc_Local R got))
     \<and> renamed_only f (snd (AssignIDs R f))"
proof (intro impI conjI)
  assume failed: "fst (AssignIDs R f) = Some err"
  then have nonempty: "Blocks f \<noteq> []"
    by (auto simp: AssignIDs_def)
  from AssignIDs_number [OF nonempty, of R] failed
  obtain k where num: "number R (GlobalName f) 0 (visit_names f) =
      (Some err, visit_names (snd (AssignIDs R f)), k)" by auto
  from number_error [OF num] obtain pre got post pre1 where
    h: "visit_names f = pre @ got # post"
       "visit_names (snd (AssignIDs R f)) = pre1 @ got # post"
       "number R (GlobalName f) 0 pre = (None, pre1, k)" "isLocalID got" "got \<noteq> itoa k"
       "err = InvalidLocalID (enc_Global R (GlobalName f)) (enc_Local R (itoa k)) (enc_Local R got)"
    by blast
  from number_ok [OF h(3)] have
    ok: "k = length (filter counted pre)"
        "\<forall>j<length pre.
           pre1 ! j = (if isUnnamed (pre ! j) then itoa (counter_at pre j) else pre ! j) \<and>
           (isLocalID (pre ! j) \<longrightarrow> pre ! j = itoa (counter_at pre j))"
    by simp_all
  from number_length [OF h(3)] have len: "length pre1 = length pre" .
  show "\<exists>pre got post pre1 k.
        visit_names f = pre @ got # post \<and>
        visit_names (snd (AssignIDs R f)) = pre1 @ got # post \<and>
        length pre1 = length pre \<and>
        (\<forall>j<length pre.
           pre1 ! j = (if isUnnamed (pre ! j) then itoa (counter_at pre j) else pre ! j) \<and>
           (isLocalID (pre ! j) \<longrightarrow> pre ! j = itoa (counter_at pre j))) \<and>
        k = length (filter counted pre) \<and> isLocalID got \<and> got \<noteq> itoa k \<and>
        err = InvalidLocalID (enc_Global R (GlobalName f)) (enc_Local R (itoa k))
                (enc_Local R got)"
    using h(1,2,4,5,6) ok len by blast
  show "renamed_only f (snd (AssignIDs R f))" by (rule AssignIDs_renamed_only)
qed

theorem AssignIDs_aborts_at_first_mismatch_witness:
  "AssignIDs sample (example_def\<lparr>Blocks := [example_block_load_named ''5'', example_block]\<rparr>)
     = (Some (InvalidLocalID ''@f'' ''%3'' ''%5''),
        example_def
          \<lparr>Params := [\<lparr>Param.LocalName = ''0'', Typ = IntType 32\<rparr>,
                      \<lparr>Param.LocalName = ''x'', Typ = IntType 32\<rparr>],
           Blocks := [\<lparr>BasicBlock.LocalName = ''1'',
                       Insts = [Alloca ((NewAlloca (IntType 32))\<lparr>InstAlloca.LocalName := ''2''\<rparr>),
                                Load ((NewLoad (Pointer (PointerType (IntType 32) 0)))
                                        \<lparr>InstLoad.LocalName := ''5''\<rparr>)],
                       Term = Some (Ret None)\<rparr>,
                      example_block]\<rparr>)
   \<and> visit_names (example_def\<lparr>Blocks := [example_block_load_named ''5'', example_block]\<rparr>)
       = ['''', ''x'', '''', '''', ''5'', '''', '''', '''']
   \<and> visit_names
        (snd (AssignIDs sample
                (example_def\<lparr>Blocks := [example_block_load_named ''5'', example_block]\<rparr>)))
       = [''0'', ''x'', ''1'', ''2'', ''5'', '''', '''', '''']"
  using AssignIDs_aborts_at_first_mismatch
    [of sample "example_def\<lparr>Blocks := [example_block_load_named ''5'', example_block]\<rparr>"
        "InvalidLocalID ''@f'' ''%3'' ''%5''"]
  by (simp add: example_defs AssignIDs_defs visit_defs)

section \<open>Rendering\<close>

lemma foldl_append_buf:
  "foldl (\<lambda>b a. b @ h a) buf xs = buf @ concat (map h xs)"
  by (induction xs arbitrary: buf) simp_all

lemma if_buf: "(if c then buf @ x else buf) = buf @ (if c then x else [])"
  by simp

lemma case_buf:
  "(case opt of Some c \<Rightarrow> buf @ h c | None \<Rightarrow> buf) =
     buf @ (case opt of Some c \<Rightarrow> h c | None \<Rightarrow> [])"
  by (cases opt) simp_all

lemma header_attrs_closed:
  "header_attrs R S hdr buf =
     buf
     @ (if Preemption hdr \<noteq> PreemptionNone then '' '' @ Preemption_String R (Preemption hdr) else [])
     @ (if Visibility hdr \<noteq> VisibilityNone then '' '' @ Visibility_String R (Visibility hdr) else [])
     @ (if DLLStorageClass hdr \<noteq> DLLStorageClassNone
        then '' '' @ DLLStorageClass_String R (DLLStorageClass hdr) else [])
     @ (if CallingConv hdr \<noteq> CallingConvNone
        then '' '' @ CallingConv_String R (CallingConv hdr) else [])
     @ concat (map (\<lambda>attr. '' '' @ ReturnAttribute_String R attr) (ReturnAttrs hdr))
     @ '' '' @ Type_String R (RetType (S (Sig hdr)))"
  unfolding header_attrs_def
  by (simp only: Let_def foldl_append_buf if_buf append_assoc)

lemma header_tail_closed:
  "header_tail R hdr buf =
     buf
     @ (if UnnamedAddr hdr \<noteq> UnnamedAddrNone
        then '' '' @ UnnamedAddr_String R (UnnamedAddr hdr) else [])
     @ concat (map (\<lambda>attr. '' '' @ FuncAttribute_String R attr) (FuncAttrs hdr))
     @ (if Section hdr \<noteq> [] then '' section '' @ enc_Quote R (Section hdr) else [])
     @ (case Comdat hdr of Some c \<Rightarrow> '' '' @ ComdatDef_String R c | None \<Rightarrow> [])
     @ (if GC hdr \<noteq> [] then '' gc '' @ enc_Quote R (GC hdr) else [])
     @ (case Prefix hdr of Some c \<Rightarrow> '' prefix '' @ Constant_String R c | None \<Rightarrow> [])
     @ (case Prologue hdr of Some c \<Rightarrow> '' prologue '' @ Constant_String R c | None \<Rightarrow> [])
     @ (case Personality hdr of Some c \<Rightarrow> '' personality '' @ Constant_String R c | None \<Rightarrow> [])"
  unfolding header_tail_def
  by (simp only: Let_def foldl_append_buf if_buf case_buf append_assoc length_greater_0_conv)


lemma write_params_later:
  "i \<noteq> 0 \<Longrightarrow>
     write_params R i ps buf = buf @ concat (map (\<lambda>p. '', '' @ Param_Def R p) ps)"
  by (induction ps arbitrary: i buf) simp_all

lemma join_Cons: "join sep (x # xs) = x @ concat (map (\<lambda>y. sep @ y) xs)"
  by (induction xs arbitrary: x) simp_all

lemma write_params_join:
  "write_params R 0 ps buf = buf @ join '', '' (map (Param_Def R) ps)"
proof (cases ps)
  case Nil
  then show ?thesis by simp
next
  case (Cons p rest)
  then show ?thesis
    by (simp add: write_params_later join_Cons comp_def del: join.simps)
qed

lemma header_tail_append: "header_tail R hdr buf = buf @ header_tail R hdr []"
  by (simp only: header_tail_closed append_Nil append_assoc)

lemma headerString_parts:
  "headerString R S hdr =
     header_attrs R S hdr [] @ '' '' @ enc_Global R (GlobalName hdr) @ ''(''
       @ join '', '' (map (Param_Def R) (Params hdr))
       @ (if Variadic (S (Sig hdr))
          then (if Params hdr \<noteq> [] then '', '' else []) @ ''...'' else [])
       @ '')'' @ header_tail R hdr []"
  unfolding headerString_def Let_def
  by (subst header_tail_append) (simp add: write_params_join)

text \<open>
  C10: the header is the specifiers and the return type, a space, the global
  identifier, \<open>(\<close>, the parameter definitions separated by \<open>", "\<close>, then for a
  variadic signature \<open>...\<close> (after \<open>", "\<close> exactly when there is a parameter), then
  \<open>)\<close> and the rest of the header. A variadic function with no parameter has the
  parameter list \<open>(...)\<close>.
\<close>

theorem header_parameter_list:
  "headerString R S hdr =
     header_attrs R S hdr [] @ '' '' @ enc_Global R (GlobalName hdr) @ ''(''
       @ join '', '' (map (Param_Def R) (Params hdr))
       @ (if Variadic (S (Sig hdr))
          then (if Params hdr \<noteq> [] then '', '' else []) @ ''...'' else [])
       @ '')'' @ header_tail R hdr []
   \<and> (Params hdr = [] \<and> Variadic (S (Sig hdr)) \<longrightarrow>
        headerString R S hdr =
          header_attrs R S hdr [] @ '' '' @ enc_Global R (GlobalName hdr) @ ''(...)''
            @ header_tail R hdr [])"
  by (simp add: headerString_parts)

lemmas render_defs =
  headerString_parts header_attrs_closed header_tail_closed
  itoa.simps digit_def

theorem header_parameter_list_witness:
  "headerString sample example_sigs (example_decl\<lparr>Sig := 2\<rparr>) = '' void @f(...)''
   \<and> headerString sample example_sigs (example_def\<lparr>Sig := 3\<rparr>)
       = '' void @f(i32 %, i32 %x, ...)''
   \<and> headerString sample example_sigs example_def = '' void @f(i32 %, i32 %x)''"
  using header_parameter_list
    [where R = sample and S = example_sigs and hdr = "example_decl\<lparr>Sig := 2\<rparr>"]
  by (simp add: example_defs render_defs)

lemma bodyString_blocks:
  "bodyString R f =
     ''{'' @ newline @ concat (map (\<lambda>b. BasicBlock_Def R b @ newline) (Blocks f)) @ ''}''"
  by (simp add: bodyString_def Let_def foldl_append_buf)

lemma header_attrs_Blocks: "header_attrs R S (f\<lparr>Blocks := bs\<rparr>) buf = header_attrs R S f buf"
  by (simp add: header_attrs_closed split del: if_split cong del: if_weak_cong)

lemma header_tail_Blocks: "header_tail R (f\<lparr>Blocks := bs\<rparr>) buf = header_tail R f buf"
  by (simp add: header_tail_closed split del: if_split
        cong del: if_weak_cong option.case_cong_weak)

lemma headerString_Blocks: "headerString R S (f\<lparr>Blocks := bs\<rparr>) = headerString R S f"
  by (simp add: headerString_parts header_attrs_Blocks header_tail_Blocks split del: if_split
        cong del: if_weak_cong)

lemma Def_declare:
  "Blocks f = [] \<Longrightarrow>
     Def R S f = ''declare''
       @ (if Linkage f \<noteq> LinkageNone then '' '' @ Linkage_String R (Linkage f) else [])
       @ headerString R S f"
  by (simp add: Def_def Let_def)

lemma Def_define:
  "Blocks f \<noteq> [] \<Longrightarrow>
     Def R S f = ''define''
       @ (if Linkage f \<noteq> LinkageNone then '' '' @ Linkage_String R (Linkage f) else [])
       @ headerString R S f @ '' '' @ bodyString R f"
  by (simp add: Def_def Let_def)

text \<open>
  C7: with an empty block list the text is \<open>declare\<close>, the linkage clause and the
  header, and nothing after the header. With a non-empty block list it is \<open>define\<close>,
  the linkage clause, the header, a space and the body; the body is \<open>{\<close>, a newline,
  each block's definition followed by a newline, and \<open>}\<close>, so it is never empty.
  Appending a first block to a declaration replaces the keyword \<open>declare\<close> by
  \<open>define\<close>, keeps the rest of the text and adds the body.
\<close>

theorem Def_declaration_or_definition:
  "(Blocks f = [] \<longrightarrow>
      Def R S f = ''declare''
        @ (if Linkage f \<noteq> LinkageNone then '' '' @ Linkage_String R (Linkage f) else [])
        @ headerString R S f)
   \<and> (Blocks f \<noteq> [] \<longrightarrow>
      Def R S f = ''define''
        @ (if Linkage f \<noteq> LinkageNone then '' '' @ Linkage_String R (Linkage f) else [])
        @ headerString R S f @ '' '' @ bodyString R f)
   \<and> bodyString R f =
       ''{'' @ newline @ concat (map (\<lambda>b. BasicBlock_Def R b @ newline) (Blocks f)) @ ''}''
   \<and> (Blocks f = [] \<longrightarrow>
      Def R S (f\<lparr>Blocks := [b]\<rparr>) =
        ''define'' @ drop (length ''declare'') (Def R S f)
          @ '' {'' @ newline @ BasicBlock_Def R b @ newline @ ''}'')"
proof (intro conjI impI)
  assume "Blocks f = []"
  then show "Def R S f = ''declare''
        @ (if Linkage f \<noteq> LinkageNone then '' '' @ Linkage_String R (Linkage f) else [])
        @ headerString R S f" by (rule Def_declare)
next
  assume "Blocks f \<noteq> []"
  then show "Def R S f = ''define''
        @ (if Linkage f \<noteq> LinkageNone then '' '' @ Linkage_String R (Linkage f) else [])
        @ headerString R S f @ '' '' @ bodyString R f" by (rule Def_define)
next
  show "bodyString R f =
       ''{'' @ newline @ concat (map (\<lambda>b. BasicBlock_Def R b @ newline) (Blocks f)) @ ''}''"
    by (rule bodyString_blocks)
next
  assume empty: "Blocks f = []"
  have "Def R S (f\<lparr>Blocks := [b]\<rparr>) = ''define''
        @ (if Linkage f \<noteq> LinkageNone then '' '' @ Linkage_String R (Linkage f) else [])
        @ headerString R S f @ '' '' @ bodyString R (f\<lparr>Blocks := [b]\<rparr>)"
    by (simp add: Def_define headerString_Blocks)
  then show "Def R S (f\<lparr>Blocks := [b]\<rparr>) =
        ''define'' @ drop (length ''declare'') (Def R S f)
          @ '' {'' @ newline @ BasicBlock_Def R b @ newline @ ''}''"
    by (simp add: Def_declare [OF empty] bodyString_blocks)
qed

lemmas Def_eval = Def_declare Def_define bodyString_blocks newline_def

theorem Def_declaration_or_definition_witness:
  "Def sample example_sigs example_decl = ''declare void @f()''
   \<and> Def sample example_sigs (example_decl\<lparr>Blocks := [example_block\<lparr>BasicBlock.LocalName := ''entry''\<rparr>]\<rparr>)
       = ''define void @f() {'' @ [CHR 0x0A] @ ''entry:'' @ [CHR 0x0A] @ ''}''
   \<and> Def sample example_sigs example_def
       = ''define void @f(i32 %, i32 %x) {'' @ [CHR 0x0A] @ '':'' @ [CHR 0x0A] @ ''}''"
  using Def_declaration_or_definition
    [where f = example_decl and R = sample and S = example_sigs
       and b = "example_block\<lparr>BasicBlock.LocalName := ''entry''\<rparr>"]
    Def_declaration_or_definition [where f = example_def and R = sample and S = example_sigs]
  by (simp add: example_defs render_defs Def_eval)

text \<open>
  C8, as stated, fails: a declaration whose linkage is \<open>internal\<close> (not an external
  linkage) renders the linkage keyword.
\<close>

theorem declaration_renders_internal_linkage:
  "Def sample example_sigs (example_decl\<lparr>Linkage := LinkageInternal\<rparr>) = ''declare internal void @f()''"
  by (simp add: example_defs render_defs Def_eval)

text \<open>
  C8 (amended): for every function with an empty block list, the rendered declaration
  omits the linkage clause exactly when the linkage is \<open>LinkageNone\<close>; every other
  linkage value, external or not, is rendered between \<open>declare\<close> and the header.
\<close>

theorem declaration_renders_every_linkage_but_none:
  "(Blocks f = [] \<and> Linkage f = LinkageNone \<longrightarrow> Def R S f = ''declare'' @ headerString R S f)
   \<and> (Blocks f = [] \<and> Linkage f \<noteq> LinkageNone \<longrightarrow>
        Def R S f = ''declare '' @ Linkage_String R (Linkage f) @ headerString R S f)"
  by (simp add: Def_declare)

theorem declaration_renders_every_linkage_but_none_witness:
  "Def sample example_sigs example_decl = ''declare void @f()''
   \<and> Def sample example_sigs (example_decl\<lparr>Linkage := LinkageExternal\<rparr>) = ''declare external void @f()''
   \<and> Def sample example_sigs (example_decl\<lparr>Linkage := LinkagePrivate\<rparr>) = ''declare private void @f()''"
  using declaration_renders_every_linkage_but_none
      [where f = example_decl and R = sample and S = example_sigs]
    declaration_renders_every_linkage_but_none
      [where f = "example_decl\<lparr>Linkage := LinkageExternal\<rparr>" and R = sample
         and S = example_sigs]
    declaration_renders_every_linkage_but_none
      [where f = "example_decl\<lparr>Linkage := LinkagePrivate\<rparr>" and R = sample
         and S = example_sigs]
  by (simp add: example_defs render_defs Def_eval)

end
